theory Spec2Isabelle
  imports Complex_Main "HOL-Library.Word"
begin

section \<open>SmartMeterBlock: a shallow embedding of src/simulation/SmartMeterBlock.m\<close>

text \<open>
  The MATLAB System object \<open>SmartMeterBlock\<close> is modelled as a record of its properties,
  its methods as functions that take the object and return the updated one.
  Conventions of the embedding:
  \<^item> a MATLAB double is a real number (rounding of floating-point arithmetic is not
    modelled); the constant \<open>NaN\<close> that the code assigns to unavailable quantities is a value
    of its own;
  \<^item> a \<open>datetime\<close> is an instant, in seconds since 1970-01-01 00:00 UTC, together with
    its \<open>TimeZone\<close> property, which is empty for an unzoned value; MATLAB refuses to
    subtract or compare a zoned and an unzoned datetime, and the subtraction of the model
    raises there;
  \<^item> a char array is a \<open>string\<close>; a numeric input signal is the list of its elements
    (\<open>numel\<close> is \<open>length\<close>, \<open>x(:)\<close> is the list itself);
  \<^item> what the MATLAB runtime and the outside world decide (number formatting, JSON
    serialisation, the Java MAC, the wall clock, the fate of a \<open>write\<close> on the socket) is a
    parameter of the model;
  \<^item> an error raised by \<open>error(...)\<close> or by a library call is a value of type \<open>error\<close>;
    \<open>try ... catch\<close> is a case distinction on it.
\<close>

subsection \<open>Values, errors and the runtime\<close>

datatype error =
    WaveformInputsInvalid   \<comment> \<open>'Waveform inputs must be non-empty vectors of equal length.'\<close>
  | Expected9Inputs         \<comment> \<open>'Expected 9 inputs when UseWaveformInput is false.'\<close>
  | IndexOutOfBounds        \<comment> \<open>indexing \<open>varargin{i}\<close> or \<open>V_fft(k)\<close> outside the array\<close>
  | LibraryError string     \<comment> \<open>an error raised inside a runtime function\<close>
  | FailedToSend            \<comment> \<open>'Failed to send data to Telegraf: ...'\<close>
  | UnsupportedProtocol     \<comment> \<open>'Unsupported transport protocol. Use "tcp" or "udp".'\<close>
  | IncompatibleTimeZones   \<comment> \<open>'Cannot combine or compare a datetime array with a time
                                zone with one without a time zone.'\<close>

datatype mvalue =
    Dbl "real list"                    \<comment> \<open>double array; a scalar is a singleton\<close>
  | NaN                                \<comment> \<open>the scalar double NaN\<close>
  | Chars string                       \<comment> \<open>char array\<close>
  | Int64 int                          \<comment> \<open>int64 scalar\<close>
  | Struct "(string \<times> mvalue) list"    \<comment> \<open>1x1 struct, fields in order of creation\<close>

type_synonym bytes = "8 word list"

record runtime =
  sprintf :: "string \<Rightarrow> mvalue list \<Rightarrow> string"
  jsonencode :: "mvalue \<Rightarrow> error + string"
  HmacSHA256 :: "bytes \<Rightarrow> bytes \<Rightarrow> bytes"   \<comment> \<open>key, data; javax.crypto.Mac 'HmacSHA256'\<close>

record datetime =
  posix :: real           \<comment> \<open>the instant; an unzoned value is read as UTC, as posixtime does\<close>
  TimeZone :: string      \<comment> \<open>empty for an unzoned datetime\<close>

record tick_env =
  wallclock :: real       \<comment> \<open>the system clock when the tick is captured, in POSIX seconds\<close>
  write_raises :: bool    \<comment> \<open>whether \<open>write\<close> on the transport object raises in this tick\<close>

subsection \<open>The object\<close>

record SmartMeterBlock =
  MeterId :: string
  NodeType :: string
  TelegrafHost :: string
  TelegrafPort :: nat
  TransportProtocol :: string
  SendInterval :: real
  CommunicationFormat :: string
  UseWaveformInput :: bool
  SamplingRate :: real
  FundamentalFreq :: real
  HMACKey :: string
  TimeSync :: string
  TcpClient :: "nat option"    \<comment> \<open>\<open>[]\<close> is \<open>None\<close>; a client object is an opaque handle\<close>
  LastSendTime :: datetime
  SampleCount :: nat
  IsConnected :: bool

definition epoch :: datetime where
  \<comment> \<open>\<open>datetime(1970,1,1)\<close>, lines 26 and 312: no time zone is given\<close>
  "epoch = \<lparr> posix = 0, TimeZone = [] \<rparr>"

definition nowUtc :: "tick_env \<Rightarrow> datetime" where
  \<comment> \<open>\<open>datetime('now','TimeZone','UTC')\<close>, line 76\<close>
  "nowUtc env = \<lparr> posix = wallclock env, TimeZone = ''UTC'' \<rparr>"

definition new_block :: SmartMeterBlock where
  "new_block = \<lparr> MeterId = ''METER_001'', NodeType = ''consumer'',
     TelegrafHost = ''localhost'', TelegrafPort = 8094, TransportProtocol = ''tcp'',
     SendInterval = 1, CommunicationFormat = ''influx'', UseWaveformInput = True,
     SamplingRate = 4800, FundamentalFreq = 50, HMACKey = [], TimeSync = ''none'',
     TcpClient = None, LastSendTime = epoch, SampleCount = 0, IsConnected = False \<rparr>"

subsection \<open>MATLAB library functions used by the block\<close>

definition mround :: "real \<Rightarrow> int" where
  \<comment> \<open>\<open>round\<close>: to the nearest integer, ties away from zero\<close>
  "mround x = (if 0 \<le> x then \<lfloor>x + 1 / 2\<rfloor> else - \<lfloor>- x + 1 / 2\<rfloor>)"

definition int64 :: "real \<Rightarrow> int" where
  \<comment> \<open>conversion of a double to int64: rounds, saturates at the ends of the range\<close>
  "int64 x = (let r = mround x in
      if r > 2 ^ 63 - 1 then 2 ^ 63 - 1 else if r < - (2 ^ 63) then - (2 ^ 63) else r)"

definition posixtime :: "datetime \<Rightarrow> real" where
  "posixtime t = posix t"

definition minus_datetime :: "datetime \<Rightarrow> datetime \<Rightarrow> error + real" where
  \<comment> \<open>\<open>seconds(a - b)\<close>: the duration between two datetimes, an error when exactly one
      of them has a time zone\<close>
  "minus_datetime a b =
     (if (TimeZone a = []) = (TimeZone b = []) then Inr (posix a - posix b)
      else Inl IncompatibleTimeZones)"

definition mean :: "real list \<Rightarrow> real" where
  "mean xs = sum_list xs / real (length xs)"

definition times :: "real list \<Rightarrow> real list \<Rightarrow> real list" where
  \<comment> \<open>elementwise \<open>.*\<close> of two column vectors of the same length\<close>
  "times xs ys = map2 (*) xs ys"

definition hann :: "nat \<Rightarrow> real list" where
  \<comment> \<open>symmetric Hann window of the Signal Processing Toolbox; \<open>hann(1)\<close> is 1\<close>
  "hann N = (if N = 1 then [1]
             else map (\<lambda>n. 0.5 * (1 - cos (2 * pi * real n / real (N - 1)))) [0..<N])"

definition fft :: "real list \<Rightarrow> complex list" where
  \<comment> \<open>the discrete Fourier transform; element \<open>k\<close> of the list is MATLAB's \<open>X(k+1)\<close>\<close>
  "fft xs = (let N = length xs in
     map (\<lambda>k. sum_list (map (\<lambda>n. complex_of_real (xs ! n) *
                 cis (- 2 * pi * real k * real n / real N)) [0..<N])) [0..<N])"

definition index1 :: "'a list \<Rightarrow> int \<Rightarrow> error + 'a" where
  \<comment> \<open>one-based indexing \<open>xs(k)\<close>, an error outside \<open>1..numel(xs)\<close>\<close>
  "index1 xs k = (if 1 \<le> k \<and> k \<le> int (length xs) then Inr (xs ! nat (k - 1))
                  else Inl IndexOutOfBounds)"

definition lower_char :: "char \<Rightarrow> char" where
  \<comment> \<open>\<open>lower\<close> on one character: the letters A..Z (codes 65..90) move to a..z\<close>
  "lower_char c = (let n = (of_char c :: nat) in
                   if 65 \<le> n \<and> n \<le> 90 then char_of (n + 32) else c)"

definition lower :: "string \<Rightarrow> string" where
  "lower s = map lower_char s"

definition strcmpi :: "string \<Rightarrow> string \<Rightarrow> bool" where
  "strcmpi a b = (lower a = lower b)"

definition uint8 :: "string \<Rightarrow> bytes" where
  "uint8 s = map of_char s"

definition hexdigit :: "nat \<Rightarrow> char" where
  "hexdigit n = ''0123456789ABCDEF'' ! n"

definition dec2hex :: "bytes \<Rightarrow> string list" where
  \<comment> \<open>one row per element, as many digits as the largest element needs\<close>
  "dec2hex d = (if list_ex (\<lambda>b. 16 \<le> unat b) d
                then map (\<lambda>b. [hexdigit (unat b div 16), hexdigit (unat b mod 16)]) d
                else map (\<lambda>b. [hexdigit (unat b)]) d)"

definition isempty :: "mvalue \<Rightarrow> bool" where
  "isempty v = (case v of Dbl xs \<Rightarrow> xs = [] | Chars s \<Rightarrow> s = [] | _ \<Rightarrow> False)"

subsection \<open>setupImpl, resetImpl\<close>

definition setupImpl :: "(error + nat) \<Rightarrow> SmartMeterBlock \<Rightarrow> SmartMeterBlock" where
  \<comment> \<open>\<open>connect\<close> is what \<open>tcpclient(...)\<close> or \<open>udpport(...)\<close> does: a client object or an
      error. The advisory NTP query that follows changes no property and is left out.\<close>
  "setupImpl connect obj =
     (case (if TransportProtocol obj = ''tcp'' then connect
            else if TransportProtocol obj = ''udp'' then connect
            else Inl UnsupportedProtocol) of
        Inr client \<Rightarrow> obj\<lparr>TcpClient := Some client, IsConnected := True\<rparr>
      | Inl ME \<Rightarrow> obj\<lparr>IsConnected := False\<rparr>)"

definition resetImpl :: "SmartMeterBlock \<Rightarrow> SmartMeterBlock" where
  "resetImpl obj = obj\<lparr>LastSendTime := epoch, SampleCount := 0\<rparr>"

subsection \<open>The waveform analysis of stepImpl (lines 83 to 151)\<close>

record analysis =
  Vrms :: real
  Irms :: real
  P_inst :: real
  kFund :: int
  V1 :: complex
  I1 :: complex
  S_fund :: real
  Vrms_fund :: real
  Irms_fund :: real
  S_app :: real        \<comment> \<open>the local \<open>S\<close>\<close>
  P_fund :: real
  Q_fund :: real
  N_win :: nat         \<comment> \<open>the local \<open>N\<close>\<close>

definition fundamentalBin :: "real \<Rightarrow> nat \<Rightarrow> real \<Rightarrow> int" where
  \<comment> \<open>lines 111 and 116 to 118: the one-based subscript of the fundamental bin\<close>
  "fundamentalBin f N fs =
     (let k = mround (f * real N / fs) + 1 in
      if k > int N then (k - 1) mod int N + 1 else k)"

definition analyzeWaveform ::
  "SmartMeterBlock \<Rightarrow> real list \<Rightarrow> real list \<Rightarrow> error + analysis" where
  "analyzeWaveform obj voltageSamples currentSamples =
     (if voltageSamples = [] \<or> currentSamples = [] \<or>
         length voltageSamples \<noteq> length currentSamples
      then Inl WaveformInputsInvalid
      else let n = length voltageSamples;
               fs = SamplingRate obj;
               w = hann n;
               v_w = times voltageSamples w;
               i_w = times currentSamples w;
               V_fft = fft v_w;
               I_fft = fft i_w
           in if fs = 0 then Inl IndexOutOfBounds
                \<comment> \<open>the quotient is Inf or NaN, and so is the subscript\<close>
              else
                let k = fundamentalBin (FundamentalFreq obj) n fs in
                case index1 V_fft k of Inl ME \<Rightarrow> Inl ME | Inr v1 \<Rightarrow>
               (case index1 I_fft k of Inl ME \<Rightarrow> Inl ME | Inr i1 \<Rightarrow>
                  Inr \<lparr> Vrms = sqrt (mean (map (\<lambda>x. x ^ 2) v_w)),
                        Irms = sqrt (mean (map (\<lambda>x. x ^ 2) i_w)),
                        P_inst = mean (times v_w i_w),
                        kFund = k, V1 = v1, I1 = i1,
                        S_fund = cmod v1 * cmod i1 / (real n) ^ 2,
                        Vrms_fund = cmod v1 / real n / sqrt 2,
                        Irms_fund = cmod i1 / real n / sqrt 2,
                        S_app = (cmod v1 / real n / sqrt 2) * (cmod i1 / real n / sqrt 2),
                        P_fund = Re (v1 * cnj i1) / (real n) ^ 2,
                        Q_fund = Im (v1 * cnj i1) / (real n) ^ 2,
                        N_win = n \<rparr>))"

subsection \<open>The quantities of one tick (lines 81 to 168)\<close>

record quantities =
  pActive :: mvalue
  pReactive :: mvalue
  voltage :: mvalue
  current :: mvalue
  frequency :: mvalue
  timeOfUse :: mvalue
  energyKwh :: mvalue
  maxDemandKw :: mvalue
  costValue :: mvalue
  meta :: mvalue

definition inputStage :: "SmartMeterBlock \<Rightarrow> real list list \<Rightarrow> error + quantities" where
  "inputStage obj varargin =
     (if UseWaveformInput obj then
        (case index1 varargin 1 of Inl ME \<Rightarrow> Inl ME | Inr voltageSamples \<Rightarrow>
        (case index1 varargin 2 of Inl ME \<Rightarrow> Inl ME | Inr currentSamples \<Rightarrow>
        (case analyzeWaveform obj voltageSamples currentSamples of Inl ME \<Rightarrow> Inl ME
         | Inr a \<Rightarrow>
           Inr \<lparr> pActive = Dbl [P_inst a], pReactive = Dbl [Q_fund a],
                 voltage = Dbl [Vrms a], current = Dbl [Irms a],
                 frequency = Dbl [FundamentalFreq obj], timeOfUse = Chars [],
                 energyKwh = NaN, maxDemandKw = NaN, costValue = NaN,
                 meta = Struct [(''Vrms_fund'', Dbl [Vrms_fund a]),
                                (''Irms_fund'', Dbl [Irms_fund a]),
                                (''P_fund'', Dbl [P_fund a]),
                                (''Q_fund'', Dbl [Q_fund a]),
                                (''S'', Dbl [S_app a]),
                                (''N'', Dbl [real (N_win a)])] \<rparr>)))
      else if length varargin < 9 then Inl Expected9Inputs
      else Inr \<lparr> pActive = Dbl (varargin ! 0), pReactive = Dbl (varargin ! 1),
                 voltage = Dbl (varargin ! 2), current = Dbl (varargin ! 3),
                 frequency = Dbl (varargin ! 4), timeOfUse = Dbl (varargin ! 5),
                 energyKwh = Dbl (varargin ! 6), maxDemandKw = Dbl (varargin ! 7),
                 costValue = Dbl (varargin ! 8), meta = Struct [] \<rparr>)"

subsection \<open>Encoding and signing (lines 174 to 199, 221 to 277)\<close>

definition buildLineProtocolInflux :: "runtime \<Rightarrow> quantities \<Rightarrow> int \<Rightarrow> string" where
  "buildLineProtocolInflux rt q timestamp_ns =
     (let realtimeMsg = sprintf rt
            ''realtime_readings p_active=%.6f,p_reactive=%.6f,voltage=%.6f,current=%.6f,frequency=%.6f %d''
            [pActive q, pReactive q, voltage q, current q, frequency q, Int64 timestamp_ns];
          aggregatedMsg = sprintf rt
            ''aggregated_usage energy_kwh=%.6f,max_demand_kw=%.6f %d''
            [energyKwh q, maxDemandKw q, Int64 timestamp_ns];
          costMsg = sprintf rt ''meter_cost total_cost=%.6f %d''
            [costValue q, Int64 timestamp_ns];
          nl = [CHR 0x0A]
      in realtimeMsg @ nl @ aggregatedMsg @ nl @ costMsg @ nl)"

definition buildDLMSPayload :: "SmartMeterBlock \<Rightarrow> quantities \<Rightarrow> int \<Rightarrow> mvalue" where
  "buildDLMSPayload obj q timestamp_ns =
     (let fields =
        [(''meter_id'', Chars (MeterId obj)),
         (''node_type'', Chars (NodeType obj)),
         (''timestamp_ns'', Int64 timestamp_ns),
         (''measurements'', Struct
            [(''1-0:1.8.0'', energyKwh q),
             (''1-0:2.8.0'', NaN),
             (''1-0:16.7.0'', pActive q),
             (''1-0:3.7.0'', pReactive q),
             (''1-0:32.7.0'', voltage q),
             (''1-0:31.7.0'', current q),
             (''1-0:14.7.0'', frequency q)]),
         (''aggregates'', Struct
            [(''max_demand_kw'', maxDemandKw q),
             (''cost'', costValue q),
             (''time_of_use'', timeOfUse q)])]
      in if \<not> isempty (meta q) then Struct (fields @ [(''meta'', meta q)])
         else Struct fields)"

definition hmacSha256Hex :: "runtime \<Rightarrow> string \<Rightarrow> string \<Rightarrow> string" where
  "hmacSha256Hex rt dataStr keyStr =
     (let keyBytes = uint8 keyStr;
          out = HmacSHA256 rt keyBytes (uint8 dataStr)
      in concat (map lower (dec2hex out)))"

definition buildPayload ::
  "runtime \<Rightarrow> SmartMeterBlock \<Rightarrow> quantities \<Rightarrow> int \<Rightarrow> error + string" where
  \<comment> \<open>lines 176 to 187; an error raised while the struct is built or serialised is the
      error of \<open>jsonencode\<close>\<close>
  "buildPayload rt obj q timestamp_ns =
     (if strcmpi (CommunicationFormat obj) ''influx''
      then Inr (buildLineProtocolInflux rt q timestamp_ns)
      else jsonencode rt (buildDLMSPayload obj q timestamp_ns))"

definition envelope :: "runtime \<Rightarrow> SmartMeterBlock \<Rightarrow> string \<Rightarrow> int \<Rightarrow> mvalue" where
  "envelope rt obj payload timestamp_ns =
     Struct [(''payload'', Chars payload),
             (''hmac'', Chars (hmacSha256Hex rt payload (HMACKey obj))),
             (''meter_id'', Chars (MeterId obj)),
             (''timestamp_ns'', Int64 timestamp_ns)]"

definition buildSendStr ::
  "runtime \<Rightarrow> SmartMeterBlock \<Rightarrow> quantities \<Rightarrow> int \<Rightarrow> error + string" where
  \<comment> \<open>lines 176 to 199: the string handed to \<open>sendToTelegraf\<close>\<close>
  "buildSendStr rt obj q timestamp_ns =
     (case buildPayload rt obj q timestamp_ns of Inl ME \<Rightarrow> Inl ME
      | Inr payload \<Rightarrow>
          if HMACKey obj \<noteq> [] then jsonencode rt (envelope rt obj payload timestamp_ns)
          else Inr payload)"

subsection \<open>sendToTelegraf and stepImpl\<close>

definition sendToTelegraf ::
  "SmartMeterBlock \<Rightarrow> tick_env \<Rightarrow> string \<Rightarrow> bytes option \<times> (error + unit)" where
  \<comment> \<open>The first component is the data argument of the call of \<open>write\<close>, if there is one.
      The call raises when there is no client object or when the transport fails; the
      catch block raises the error again under its own message.\<close>
  "sendToTelegraf obj env lineProtocol =
     (if TransportProtocol obj = ''tcp'' \<or> TransportProtocol obj = ''udp'' then
        (Some (uint8 lineProtocol),
         if TcpClient obj = None \<or> write_raises env then Inl FailedToSend else Inr ())
      else (None, Inr ()))"

definition sendDue :: "SmartMeterBlock \<Rightarrow> real \<Rightarrow> bool" where
  \<comment> \<open>the condition of line 171, on the object after the counter was incremented\<close>
  "sendDue obj elapsed = (elapsed \<ge> SendInterval obj \<or> SampleCount obj = 1)"

definition stepBody ::
  "runtime \<Rightarrow> tick_env \<Rightarrow> SmartMeterBlock \<Rightarrow> real \<Rightarrow> real list list \<Rightarrow>
     bytes option \<times> (error + SmartMeterBlock \<times> int)" where
  \<comment> \<open>the body of the try block (lines 81 to 209): the write that was called, and either
      the error raised or the object and \<open>dataStatus\<close>\<close>
  "stepBody rt env obj elapsed varargin =
     (case inputStage obj varargin of Inl ME \<Rightarrow> (None, Inl ME)
      | Inr q \<Rightarrow>
        if sendDue obj elapsed then
          if IsConnected obj then
            (let timestamp_ns = int64 (posixtime (nowUtc env) * 10 ^ 9) in
             case buildSendStr rt obj q timestamp_ns of Inl ME \<Rightarrow> (None, Inl ME)
             | Inr sendStr \<Rightarrow>
               (case sendToTelegraf obj env sendStr of
                  (w, Inl ME) \<Rightarrow> (w, Inl ME)
                | (w, Inr _) \<Rightarrow> (w, Inr (obj\<lparr>LastSendTime := nowUtc env\<rparr>, 1))))
          else (None, Inr (obj, 0))
        else (None, Inr (obj, 0)))"

record step_result =
  block :: SmartMeterBlock           \<comment> \<open>the object after the call\<close>
  written :: "bytes option"          \<comment> \<open>the bytes handed to \<open>write\<close> in this call, if any\<close>
  returned :: "error + int \<times> int"    \<comment> \<open>the error raised to the host, or the outputs
                                         \<open>(y1, y2)\<close>: dataStatus and timestamp\<close>

definition stepImpl ::
  "runtime \<Rightarrow> tick_env \<Rightarrow> SmartMeterBlock \<Rightarrow> real list list \<Rightarrow> step_result" where
  \<comment> \<open>Lines 75 to 78 stand before the try block: an error of the subtraction of line 77
      leaves the method with the counter already incremented (the object is a handle).\<close>
  "stepImpl rt env obj0 varargin =
     (let obj = obj0\<lparr>SampleCount := SampleCount obj0 + 1\<rparr> in
      case minus_datetime (nowUtc env) (LastSendTime obj) of
        Inl ME \<Rightarrow> \<lparr> block = obj, written = None, returned = Inl ME \<rparr>
      | Inr elapsed \<Rightarrow>
         (let ts = int64 (posixtime (nowUtc env) * 10 ^ 9) in
          case stepBody rt env obj elapsed varargin of
            (w, Inr (obj', dataStatus)) \<Rightarrow>
              \<lparr> block = obj', written = w, returned = Inr (dataStatus, ts) \<rparr>
          | (w, Inl ME) \<Rightarrow>
              \<lparr> block = obj, written = w, returned = Inr (- 1, ts) \<rparr>))"

fun runTicks ::
  "runtime \<Rightarrow> SmartMeterBlock \<Rightarrow> (tick_env \<times> real list list) list \<Rightarrow> step_result list" where
  \<comment> \<open>a host that calls stepImpl once per tick, on the object the last call left, and
      goes on calling after a call that raised\<close>
  "runTicks rt obj [] = []"
| "runTicks rt obj ((env, varargin) # ticks) =
     (let r = stepImpl rt env obj varargin in r # runTicks rt (block r) ticks)"

fun afterTicks ::
  "runtime \<Rightarrow> SmartMeterBlock \<Rightarrow> (tick_env \<times> real list list) list \<Rightarrow> SmartMeterBlock" where
  "afterTicks rt obj [] = obj"
| "afterTicks rt obj ((env, varargin) # ticks) =
     afterTicks rt (block (stepImpl rt env obj varargin)) ticks"

subsection \<open>Names for the quantities of one call\<close>

definition tick_ts :: "tick_env \<Rightarrow> int" where
  \<comment> \<open>\<open>int64(posixtime(nowUtc) * 1e9)\<close>, lines 174 and 218\<close>
  "tick_ts env = int64 (posixtime (nowUtc env) * 10 ^ 9)"

definition counted :: "SmartMeterBlock \<Rightarrow> SmartMeterBlock" where
  \<comment> \<open>the object after line 75\<close>
  "counted obj = obj\<lparr>SampleCount := SampleCount obj + 1\<rparr>"

definition elapsed_of :: "tick_env \<Rightarrow> SmartMeterBlock \<Rightarrow> error + real" where
  \<comment> \<open>line 77, \<open>seconds(nowUtc - obj.LastSendTime)\<close>: the elapsed time or the error raised\<close>
  "elapsed_of env obj = minus_datetime (nowUtc env) (LastSendTime obj)"

definition fundamental_of ::
  "SmartMeterBlock \<Rightarrow> real list \<Rightarrow> real list \<Rightarrow> analysis" where
  \<comment> \<open>the record that analyzeWaveform returns when no subscript is out of range\<close>
  "fundamental_of obj vs cs =
     (let n = length vs;
          v_w = times vs (hann n);
          i_w = times cs (hann n);
          k = fundamentalBin (FundamentalFreq obj) n (SamplingRate obj);
          v1 = fft v_w ! nat (k - 1);
          i1 = fft i_w ! nat (k - 1)
      in \<lparr> Vrms = sqrt (mean (map (\<lambda>x. x ^ 2) v_w)),
            Irms = sqrt (mean (map (\<lambda>x. x ^ 2) i_w)),
            P_inst = mean (times v_w i_w),
            kFund = k, V1 = v1, I1 = i1,
            S_fund = cmod v1 * cmod i1 / (real n) ^ 2,
            Vrms_fund = cmod v1 / real n / sqrt 2,
            Irms_fund = cmod i1 / real n / sqrt 2,
            S_app = (cmod v1 / real n / sqrt 2) * (cmod i1 / real n / sqrt 2),
            P_fund = Re (v1 * cnj i1) / (real n) ^ 2,
            Q_fund = Im (v1 * cnj i1) / (real n) ^ 2,
            N_win = n \<rparr>)"

subsection \<open>The specification's wording, for comparison with the code\<close>

definition spec_fundamentalBin :: "real \<Rightarrow> nat \<Rightarrow> real \<Rightarrow> int" where
  \<comment> \<open>section 4.1, step 4: \<open>k = round(nominal_freq_hz * N / sample_rate_hz)\<close>, one-based,
      wrapped by \<open>((k-1) mod N) + 1\<close> if it exceeds \<open>N\<close>\<close>
  "spec_fundamentalBin f n fs =
     (let k = mround (f * real n / fs) in
      if k > int n then (k - 1) mod int n + 1 else k)"

definition spec_Vrms_fund :: "real \<Rightarrow> real \<Rightarrow> real list \<Rightarrow> real" where
  \<comment> \<open>section 4.1, step 5: \<open>|V1| / N / sqrt(2)\<close> with \<open>V1 = V_fft[k]\<close>, \<open>k\<close> one-based as
      in step 4\<close>
  "spec_Vrms_fund f fs vs =
     (let n = length vs;
          k = spec_fundamentalBin f n fs;
          v1 = fft (times vs (hann n)) ! nat (k - 1)
      in cmod v1 / real n / sqrt 2)"

definition spec_lowercase_hex :: "bytes \<Rightarrow> string" where
  \<comment> \<open>section 4.3: lowercase hexadecimal, two digits for every byte\<close>
  "spec_lowercase_hex d =
     concat (map (\<lambda>b. [''0123456789abcdef'' ! (unat b div 16),
                        ''0123456789abcdef'' ! (unat b mod 16)]) d)"

subsection \<open>Objects and runtimes of the worked examples\<close>

definition render_leaf :: "mvalue \<Rightarrow> string" where
  "render_leaf v = (case v of Chars s \<Rightarrow> s | Int64 n \<Rightarrow> (if n = 0 then ''0'' else ''n'')
                    | _ \<Rightarrow> [])"

definition render :: "mvalue \<Rightarrow> error + string" where
  \<comment> \<open>a serialisation that shows every field of a flat struct as \<open>name=value;\<close>\<close>
  "render v = (case v of
                 Struct fs \<Rightarrow> Inr (concat (map (\<lambda>(k, x). k @ ''='' @ render_leaf x @ '';'') fs))
               | _ \<Rightarrow> Inl (LibraryError ''not a struct''))"

definition example_runtime :: runtime where
  \<comment> \<open>a runtime for the worked examples: every formatted record is \<open>p\<close>, a struct is
      rendered field by field, and the MAC is the key followed by the data, so that the
      examples show which bytes reach it\<close>
  "example_runtime = \<lparr> sprintf = (\<lambda>fmt args. ''p''),
                        jsonencode = render,
                        HmacSHA256 = (\<lambda>key data. key @ data) \<rparr>"

definition connected_block :: SmartMeterBlock where
  \<comment> \<open>the default object after a setupImpl whose tcpclient call succeeded\<close>
  "connected_block = setupImpl (Inr 1) new_block"

definition unopened_block :: SmartMeterBlock where
  \<comment> \<open>the default object after a setupImpl whose tcpclient call raised\<close>
  "unopened_block = setupImpl (Inl (LibraryError ''connection refused'')) new_block"

definition five_second_block :: SmartMeterBlock where
  \<comment> \<open>a connected object with \<open>SendInterval = 5\<close>\<close>
  "five_second_block = setupImpl (Inr 1) (new_block\<lparr>SendInterval := 5\<rparr>)"

definition keyed_block :: SmartMeterBlock where
  \<comment> \<open>a connected object with a signing key\<close>
  "keyed_block = setupImpl (Inr 1) (new_block\<lparr>HMACKey := ''k''\<rparr>)"

definition four_sample_block :: SmartMeterBlock where
  \<comment> \<open>one cycle of the fundamental in a window of four samples\<close>
  "four_sample_block = new_block\<lparr>SamplingRate := 4, FundamentalFreq := 1\<rparr>"

definition sent_at :: "real \<Rightarrow> SmartMeterBlock \<Rightarrow> SmartMeterBlock" where
  \<comment> \<open>The object with the LastSendTime that line 204 writes in a tick captured at \<open>t\<close>: a
      datetime in the UTC zone. Line 204 is the only place that stores a zoned value and
      it lies behind line 77, so a new object never gets there; the examples on such an
      object show what the method does once line 77 is passed.\<close>
  "sent_at t obj = obj\<lparr>LastSendTime := \<lparr> posix = t, TimeZone = ''UTC'' \<rparr>\<rparr>"

definition at_time :: "real \<Rightarrow> tick_env" where
  \<comment> \<open>a tick captured at time \<open>t\<close> in which the transport works\<close>
  "at_time t = \<lparr> wallclock = t, write_raises = False \<rparr>"

definition failing_at :: "real \<Rightarrow> tick_env" where
  \<comment> \<open>a tick captured at time \<open>t\<close> in which the write on the transport raises\<close>
  "failing_at t = \<lparr> wallclock = t, write_raises = True \<rparr>"

section \<open>Facts about the library functions and the analysis\<close>

lemma length_hann [simp]: "length (hann n) = n"
  by (simp add: hann_def)

lemma length_times [simp]: "length (times xs ys) = min (length xs) (length ys)"
  by (simp add: times_def)

lemma length_fft [simp]: "length (fft xs) = length xs"
  by (simp add: fft_def Let_def)

lemma mround_nonneg: "0 \<le> x \<Longrightarrow> 0 \<le> mround x"
  by (simp add: mround_def)

lemma fundamentalBin_wrap:
  assumes "0 < n" and "0 \<le> f * real n / fs"
  shows "fundamentalBin f n fs = mround (f * real n / fs) mod int n + 1"
proof -
  have "0 \<le> mround (f * real n / fs)" using assms(2) by (rule mround_nonneg)
  then show ?thesis
    by (auto simp: fundamentalBin_def Let_def)
qed

lemma fundamentalBin_range:
  assumes "0 < n" and "0 \<le> f * real n / fs"
  shows "1 \<le> fundamentalBin f n fs \<and> fundamentalBin f n fs \<le> int n"
proof -
  have "0 \<le> mround (f * real n / fs) mod int n" "mround (f * real n / fs) mod int n < int n"
    using assms(1) by simp_all
  then show ?thesis unfolding fundamentalBin_wrap [OF assms] by linarith
qed

lemma analyzeWaveform_invalid:
  "vs = [] \<or> cs = [] \<or> length vs \<noteq> length cs \<Longrightarrow>
   analyzeWaveform obj vs cs = Inl WaveformInputsInvalid"
  by (simp add: analyzeWaveform_def)

lemma analyzeWaveform_valid:
  assumes "vs \<noteq> []" and "length vs = length cs"
    and "0 < SamplingRate obj" and "0 \<le> FundamentalFreq obj"
  shows "analyzeWaveform obj vs cs = Inr (fundamental_of obj vs cs)"
proof -
  have n: "0 < length vs" using assms(1) by simp
  have q: "0 \<le> FundamentalFreq obj * real (length vs) / SamplingRate obj"
    using assms(3,4) by simp
  note r = fundamentalBin_range [OF n q]
  have cs: "cs \<noteq> []" using assms(1,2) by auto
  show ?thesis
    using assms r cs
    by (simp add: analyzeWaveform_def fundamental_of_def Let_def index1_def)
qed

lemma analyzeWaveform_error_cases:
  "analyzeWaveform obj vs cs = Inl ME \<Longrightarrow>
     ME = WaveformInputsInvalid \<and> (vs = [] \<or> cs = [] \<or> length vs \<noteq> length cs) \<or>
     ME = IndexOutOfBounds \<and> vs \<noteq> [] \<and> cs \<noteq> [] \<and> length vs = length cs"
  by (auto simp: analyzeWaveform_def Let_def index1_def split: if_splits sum.splits)

lemma cos_240: "cos (4 * pi / 3) = - 1 / 2"
proof -
  have "cos (4 * pi / 3) = cos (pi + pi / 3)" by (simp add: field_simps)
  also have "\<dots> = - cos (pi / 3)" by (rule cos_periodic_pi2) 
  finally show ?thesis by (simp add: cos_60)
qed

lemma hann_4: "hann 4 = [0, 3 / 4, 3 / 4, 0]"
  by (simp add: hann_def upt_rec cos_120 cos_240)

lemma fft_4_bin0: "fft [0, a, b, 0] ! 0 = complex_of_real (a + b)"
  by (simp add: fft_def upt_rec Let_def)

lemma fft_4_bin1: "fft [0, a, b, 0] ! Suc 0 = Complex (- b) (- a)"
  by (simp add: fft_def upt_rec Let_def complex_eq_iff)

lemma windowed_4: "times [0, 1, 1, 0] (hann 4) = [0, 3 / 4, 3 / 4, 0]"
  by (simp add: hann_4 times_def)

lemma Suc4: "Suc (Suc (Suc (Suc 0))) = 4"
  by simp

lemma four_sample_bin: "fundamentalBin 1 4 4 = 2"
  by (simp add: fundamentalBin_def mround_def)

lemma cmod_diag: "cmod (Complex (- (3 / 4)) (- (3 / 4))) = 3 / 4 * sqrt 2"
proof -
  have "cmod (Complex (- (3 / 4)) (- (3 / 4))) = sqrt ((3 / 4)\<^sup>2 * 2)"
    by (simp add: cmod_def power2_eq_square)
  also have "\<dots> = 3 / 4 * sqrt 2"
    by (simp add: real_sqrt_mult)
  finally show ?thesis .
qed

lemma sqrt2_neq_2: "sqrt 2 \<noteq> 2"
proof
  assume "sqrt 2 = 2"
  then have "(sqrt 2)\<^sup>2 = 2\<^sup>2" by simp
  then show False by simp
qed

lemma lower_hexdigit_table:
  "map (\<lambda>n. lower_char (hexdigit n)) [0..<16] = ''0123456789abcdef''"
  by code_simp

lemma lower_hexdigit:
  assumes "n < 16"
  shows "lower_char (hexdigit n) = ''0123456789abcdef'' ! n"
proof -
  have "''0123456789abcdef'' ! n = map (\<lambda>n. lower_char (hexdigit n)) [0..<16] ! n"
    by (simp only: lower_hexdigit_table)
  also have "\<dots> = lower_char (hexdigit n)"
    using assms by (simp del: upt_Suc)
  finally show ?thesis by simp
qed

lemma lowercase_digit_in_set:
  assumes "n < 16"
  shows "''0123456789abcdef'' ! n \<in> set ''0123456789abcdef''"
  using assms by (intro nth_mem) simp

lemma unat_byte_div: "unat (b :: 8 word) div 16 < 16"
proof -
  have "unat b < 2 ^ 8" using unsigned_less [of b, where ?'a = nat] by simp
  then show ?thesis by simp
qed

lemma hmacSha256Hex_two_digits:
  assumes "list_ex (\<lambda>b. 16 \<le> unat b) (HmacSHA256 rt (map of_char keyStr) (map of_char dataStr))"
  shows "hmacSha256Hex rt dataStr keyStr =
           spec_lowercase_hex (HmacSHA256 rt (map of_char keyStr) (map of_char dataStr))"
  using assms
  by (simp add: hmacSha256Hex_def dec2hex_def spec_lowercase_hex_def lower_def comp_def
        uint8_def lower_hexdigit unat_byte_div)

lemma hmacSha256Hex_one_digit:
  assumes "\<not> list_ex (\<lambda>b. 16 \<le> unat b) (HmacSHA256 rt (map of_char keyStr) (map of_char dataStr))"
  shows "hmacSha256Hex rt dataStr keyStr =
           map (\<lambda>b. ''0123456789abcdef'' ! unat b)
             (HmacSHA256 rt (map of_char keyStr) (map of_char dataStr))"
proof -
  let ?mac = "HmacSHA256 rt (map of_char keyStr) (map of_char dataStr)"
  from assms have small: "b \<in> set ?mac \<Longrightarrow> unat b < 16" for b
    by (auto simp: list_ex_iff not_le)
  have "hmacSha256Hex rt dataStr keyStr = map (\<lambda>b. lower_char (hexdigit (unat b))) ?mac"
    using assms
    by (simp add: hmacSha256Hex_def dec2hex_def lower_def comp_def uint8_def)
  also have "\<dots> = map (\<lambda>b. ''0123456789abcdef'' ! unat b) ?mac"
    by (rule map_cong) (simp_all add: lower_hexdigit small)
  finally show ?thesis .
qed

lemma hmacSha256Hex_exact:
  "hmacSha256Hex rt dataStr keyStr =
     (if list_ex (\<lambda>b. 16 \<le> unat b) (HmacSHA256 rt (map of_char keyStr) (map of_char dataStr))
      then spec_lowercase_hex (HmacSHA256 rt (map of_char keyStr) (map of_char dataStr))
      else map (\<lambda>b. ''0123456789abcdef'' ! unat b)
             (HmacSHA256 rt (map of_char keyStr) (map of_char dataStr)))"
  using hmacSha256Hex_two_digits [of rt keyStr dataStr] hmacSha256Hex_one_digit [of rt keyStr dataStr]
  by (cases "list_ex (\<lambda>b. 16 \<le> unat b) (HmacSHA256 rt (map of_char keyStr) (map of_char dataStr))")
     simp_all

section \<open>Facts about one call of stepImpl\<close>

lemma analyzeWaveform_SampleCount [simp]:
  "analyzeWaveform (obj\<lparr>SampleCount := c\<rparr>) vs cs = analyzeWaveform obj vs cs"
  by (simp add: analyzeWaveform_def Let_def cong: sum.case_cong)

lemma inputStage_SampleCount [simp]:
  "inputStage (obj\<lparr>SampleCount := c\<rparr>) varargin = inputStage obj varargin"
  by (simp add: inputStage_def cong: sum.case_cong)

lemma buildSendStr_SampleCount [simp]:
  "buildSendStr rt (obj\<lparr>SampleCount := c\<rparr>) q ts = buildSendStr rt obj q ts"
  by (simp add: buildSendStr_def buildPayload_def buildDLMSPayload_def envelope_def Let_def
      cong: sum.case_cong)

lemma sendToTelegraf_SampleCount [simp]:
  "sendToTelegraf (obj\<lparr>SampleCount := c\<rparr>) env s = sendToTelegraf obj env s"
  by (simp add: sendToTelegraf_def)

lemma analyzeWaveform_LastSendTime [simp]:
  "analyzeWaveform (obj\<lparr>LastSendTime := t\<rparr>) vs cs = analyzeWaveform obj vs cs"
  by (simp add: analyzeWaveform_def Let_def cong: sum.case_cong)

lemma inputStage_LastSendTime [simp]:
  "inputStage (obj\<lparr>LastSendTime := t\<rparr>) varargin = inputStage obj varargin"
  by (simp add: inputStage_def cong: sum.case_cong)

lemma buildSendStr_LastSendTime [simp]:
  "buildSendStr rt (obj\<lparr>LastSendTime := t\<rparr>) q ts = buildSendStr rt obj q ts"
  by (simp add: buildSendStr_def buildPayload_def buildDLMSPayload_def envelope_def Let_def
      cong: sum.case_cong)

lemma sendToTelegraf_LastSendTime [simp]:
  "sendToTelegraf (obj\<lparr>LastSendTime := t\<rparr>) env s = sendToTelegraf obj env s"
  by (simp add: sendToTelegraf_def)

lemma elapsed_of_eq:
  "elapsed_of env obj =
     (if TimeZone (LastSendTime obj) = [] then Inl IncompatibleTimeZones
      else Inr (wallclock env - posix (LastSendTime obj)))"
  by (simp add: elapsed_of_def minus_datetime_def nowUtc_def)

lemma stepBody_status:
  "stepBody rt env obj elapsed varargin = (w, Inr (obj', st)) \<Longrightarrow> st = 0 \<or> st = 1"
  by (auto simp: stepBody_def Let_def split: sum.splits if_splits prod.splits)

lemma stepImpl_zone_error:
  assumes "elapsed_of env obj = Inl ME"
  shows "stepImpl rt env obj varargin =
           \<lparr> block = counted obj, written = None, returned = Inl ME \<rparr>"
  using assms by (simp add: stepImpl_def elapsed_of_def counted_def)

lemma stepImpl_input_error:
  assumes "elapsed_of env obj = Inr e" and "inputStage obj varargin = Inl ME"
  shows "stepImpl rt env obj varargin =
           \<lparr> block = counted obj, written = None, returned = Inr (- 1, tick_ts env) \<rparr>"
  using assms by (simp add: stepImpl_def elapsed_of_def stepBody_def counted_def tick_ts_def)

lemma stepImpl_not_due:
  assumes "elapsed_of env obj = Inr e" and "inputStage obj varargin = Inr q"
    and "\<not> sendDue (counted obj) e"
  shows "stepImpl rt env obj varargin =
           \<lparr> block = counted obj, written = None, returned = Inr (0, tick_ts env) \<rparr>"
  using assms by (simp add: stepImpl_def elapsed_of_def stepBody_def counted_def tick_ts_def)

lemma stepImpl_not_connected:
  assumes "elapsed_of env obj = Inr e" and "inputStage obj varargin = Inr q"
    and "sendDue (counted obj) e" and "\<not> IsConnected obj"
  shows "stepImpl rt env obj varargin =
           \<lparr> block = counted obj, written = None, returned = Inr (0, tick_ts env) \<rparr>"
  using assms by (simp add: stepImpl_def elapsed_of_def stepBody_def counted_def tick_ts_def)

lemma stepImpl_encode_error:
  assumes "elapsed_of env obj = Inr e" and "inputStage obj varargin = Inr q"
    and "sendDue (counted obj) e" and "IsConnected obj"
    and "buildSendStr rt obj q (tick_ts env) = Inl ME"
  shows "stepImpl rt env obj varargin =
           \<lparr> block = counted obj, written = None, returned = Inr (- 1, tick_ts env) \<rparr>"
  using assms by (simp add: stepImpl_def elapsed_of_def stepBody_def counted_def tick_ts_def)

lemma stepImpl_send:
  assumes "elapsed_of env obj = Inr e" and "inputStage obj varargin = Inr q"
    and "sendDue (counted obj) e" and "IsConnected obj"
    and "buildSendStr rt obj q (tick_ts env) = Inr s"
  shows "stepImpl rt env obj varargin =
           (case sendToTelegraf obj env s of
              (w, Inl ME) \<Rightarrow>
                \<lparr> block = counted obj, written = w, returned = Inr (- 1, tick_ts env) \<rparr>
            | (w, Inr u) \<Rightarrow>
                \<lparr> block = (counted obj)\<lparr>LastSendTime := nowUtc env\<rparr>, written = w,
                  returned = Inr (1, tick_ts env) \<rparr>)"
  using assms
  by (simp add: stepImpl_def elapsed_of_def stepBody_def counted_def tick_ts_def
      split: prod.splits sum.splits)

lemma stepImpl_sent:
  assumes "elapsed_of env obj = Inr e" and "inputStage obj varargin = Inr q"
    and "sendDue (counted obj) e" and "IsConnected obj"
    and "buildSendStr rt obj q (tick_ts env) = Inr s"
    and "TransportProtocol obj = ''tcp'' \<or> TransportProtocol obj = ''udp''"
    and "TcpClient obj \<noteq> None" and "\<not> write_raises env"
  shows "stepImpl rt env obj varargin =
           \<lparr> block = (counted obj)\<lparr>LastSendTime := nowUtc env\<rparr>,
             written = Some (map of_char s), returned = Inr (1, tick_ts env) \<rparr>"
  using assms(6-8)
  by (auto simp add: stepImpl_send [OF assms(1-5)] sendToTelegraf_def uint8_def)

lemma stepImpl_send_failed:
  assumes "elapsed_of env obj = Inr e" and "inputStage obj varargin = Inr q"
    and "sendDue (counted obj) e" and "IsConnected obj"
    and "buildSendStr rt obj q (tick_ts env) = Inr s"
    and "TransportProtocol obj = ''tcp'' \<or> TransportProtocol obj = ''udp''"
    and "TcpClient obj = None \<or> write_raises env"
  shows "stepImpl rt env obj varargin =
           \<lparr> block = counted obj, written = Some (map of_char s),
             returned = Inr (- 1, tick_ts env) \<rparr>"
  using assms(6-7)
  by (auto simp add: stepImpl_send [OF assms(1-5)] sendToTelegraf_def uint8_def)

lemma stepImpl_unsupported_protocol:
  assumes "elapsed_of env obj = Inr e" and "inputStage obj varargin = Inr q"
    and "sendDue (counted obj) e" and "IsConnected obj"
    and "buildSendStr rt obj q (tick_ts env) = Inr s"
    and "\<not> (TransportProtocol obj = ''tcp'' \<or> TransportProtocol obj = ''udp'')"
  shows "stepImpl rt env obj varargin =
           \<lparr> block = (counted obj)\<lparr>LastSendTime := nowUtc env\<rparr>,
             written = None, returned = Inr (1, tick_ts env) \<rparr>"
  using assms(6)
  by (auto simp add: stepImpl_send [OF assms(1-5)] sendToTelegraf_def)

lemma stepImpl_cases:
  obtains (zone_error) ME where "elapsed_of env obj = Inl ME"
  | (input_error) e ME where "elapsed_of env obj = Inr e" "inputStage obj varargin = Inl ME"
  | (not_due) e q where "elapsed_of env obj = Inr e" "inputStage obj varargin = Inr q"
      "\<not> sendDue (counted obj) e"
  | (not_connected) e q where "elapsed_of env obj = Inr e" "inputStage obj varargin = Inr q"
      "sendDue (counted obj) e" "\<not> IsConnected obj"
  | (encode_error) e q ME where "elapsed_of env obj = Inr e" "inputStage obj varargin = Inr q"
      "sendDue (counted obj) e" "IsConnected obj" "buildSendStr rt obj q (tick_ts env) = Inl ME"
  | (sent) e q s where "elapsed_of env obj = Inr e" "inputStage obj varargin = Inr q"
      "sendDue (counted obj) e" "IsConnected obj" "buildSendStr rt obj q (tick_ts env) = Inr s"
      "TransportProtocol obj = ''tcp'' \<or> TransportProtocol obj = ''udp''"
      "TcpClient obj \<noteq> None" "\<not> write_raises env"
  | (send_failed) e q s where "elapsed_of env obj = Inr e" "inputStage obj varargin = Inr q"
      "sendDue (counted obj) e" "IsConnected obj" "buildSendStr rt obj q (tick_ts env) = Inr s"
      "TransportProtocol obj = ''tcp'' \<or> TransportProtocol obj = ''udp''"
      "TcpClient obj = None \<or> write_raises env"
  | (unsupported) e q s where "elapsed_of env obj = Inr e" "inputStage obj varargin = Inr q"
      "sendDue (counted obj) e" "IsConnected obj" "buildSendStr rt obj q (tick_ts env) = Inr s"
      "\<not> (TransportProtocol obj = ''tcp'' \<or> TransportProtocol obj = ''udp'')"
proof (cases "elapsed_of env obj")
  case (Inl ME) then show ?thesis by (rule zone_error)
next
  case el: (Inr e)
  show ?thesis
  proof (cases "inputStage obj varargin")
    case (Inl ME) with el show ?thesis by (rule input_error)
  next
    case (Inr q)
    show ?thesis
    proof (cases "sendDue (counted obj) e")
      case False with el Inr show ?thesis by (rule not_due)
    next
      case True
      show ?thesis
      proof (cases "IsConnected obj")
        case False with el Inr True show ?thesis by (rule not_connected)
      next
        case conn: True
        show ?thesis
        proof (cases "buildSendStr rt obj q (tick_ts env)")
          case (Inl ME)
          with el Inr True conn show ?thesis by (rule encode_error)
        next
          case b: (Inr s)
          show ?thesis
          proof (cases "TransportProtocol obj = ''tcp'' \<or> TransportProtocol obj = ''udp''")
            case False
            with el Inr True conn b show ?thesis by (rule unsupported)
          next
            case p: True
            show ?thesis
            proof (cases "TcpClient obj = None \<or> write_raises env")
              case True
              with el Inr \<open>sendDue (counted obj) e\<close> conn b p show ?thesis by (rule send_failed)
            next
              case False
              then have "TcpClient obj \<noteq> None" "\<not> write_raises env" by simp_all
              with el Inr True conn b p show ?thesis by (rule sent)
            qed
          qed
        qed
      qed
    qed
  qed
qed

lemmas stepImpl_results =
  stepImpl_zone_error stepImpl_input_error stepImpl_not_due stepImpl_not_connected
  stepImpl_encode_error stepImpl_sent stepImpl_send_failed stepImpl_unsupported_protocol

lemma SampleCount_stepImpl:
  "SampleCount (block (stepImpl rt env obj varargin)) = SampleCount obj + 1"
  by (cases rule: stepImpl_cases [where obj = obj and varargin = varargin and env = env and rt = rt])
     (simp_all add: stepImpl_results counted_def)

lemma SampleCount_afterTicks:
  "SampleCount (afterTicks rt obj ticks) = SampleCount obj + length ticks"
  by (induction ticks arbitrary: obj) (auto simp: SampleCount_stepImpl)

lemma returned_stepImpl:
  assumes "returned (stepImpl rt env obj varargin) = Inr (st, ts)"
  shows "st \<in> {1, 0, - 1} \<and> ts = tick_ts env \<and> TimeZone (LastSendTime obj) \<noteq> []"
  using assms
  by (cases rule: stepImpl_cases [where obj = obj and varargin = varargin and env = env and rt = rt])
     (auto simp add: stepImpl_results elapsed_of_eq split: if_splits)

lemma LastSendTime_stepImpl:
  "LastSendTime (block (stepImpl rt env obj varargin)) =
     (if returned (stepImpl rt env obj varargin) = Inr (1, tick_ts env) then nowUtc env
      else LastSendTime obj)"
  by (cases rule: stepImpl_cases [where obj = obj and varargin = varargin and env = env and rt = rt])
     (simp_all add: stepImpl_results counted_def)

lemma block_stepImpl_eq:
  "block (stepImpl rt env obj varargin) =
     (if returned (stepImpl rt env obj varargin) = Inr (1, tick_ts env)
      then (counted obj)\<lparr>LastSendTime := nowUtc env\<rparr> else counted obj)"
  by (cases rule: stepImpl_cases [where obj = obj and varargin = varargin and env = env and rt = rt])
     (simp_all add: stepImpl_results)

lemma block_stepImpl:
  "block (stepImpl rt env obj varargin) = counted obj \<or>
   block (stepImpl rt env obj varargin) = (counted obj)\<lparr>LastSendTime := nowUtc env\<rparr>"
  by (cases rule: stepImpl_cases [where obj = obj and varargin = varargin and env = env and rt = rt])
     (simp_all add: stepImpl_results)

lemma returned_1:
  assumes "returned (stepImpl rt env obj varargin) = Inr (1, ts)"
    and "TransportProtocol obj = ''tcp'' \<or> TransportProtocol obj = ''udp''"
  shows "written (stepImpl rt env obj varargin) \<noteq> None \<and> \<not> write_raises env \<and>
         TcpClient obj \<noteq> None"
  using assms
  by (cases rule: stepImpl_cases [where obj = obj and varargin = varargin and env = env and rt = rt])
     (auto simp add: stepImpl_results)

lemma written_Some:
  assumes "written (stepImpl rt env obj varargin) = Some b"
  shows "\<exists>e q s. elapsed_of env obj = Inr e \<and> inputStage obj varargin = Inr q \<and>
           sendDue (counted obj) e \<and> IsConnected obj \<and>
           (TransportProtocol obj = ''tcp'' \<or> TransportProtocol obj = ''udp'') \<and>
           buildSendStr rt obj q (tick_ts env) = Inr s \<and> b = map of_char s \<and>
           returned (stepImpl rt env obj varargin) =
             Inr (if TcpClient obj = None \<or> write_raises env then - 1 else 1, tick_ts env)"
  using assms
  by (cases rule: stepImpl_cases [where obj = obj and varargin = varargin and env = env and rt = rt])
     (auto simp add: stepImpl_results)

lemma afterTicks_shape:
  "\<exists>c t. afterTicks rt obj ticks = obj\<lparr>SampleCount := c, LastSendTime := t\<rparr> \<and>
         (TimeZone (LastSendTime obj) \<noteq> [] \<longrightarrow> TimeZone t \<noteq> [])"
proof (induction ticks arbitrary: obj)
  case Nil
  have "obj = obj\<lparr>SampleCount := SampleCount obj, LastSendTime := LastSendTime obj\<rparr>" by simp
  then show ?case by (metis afterTicks.simps(1))
next
  case (Cons tick ticks)
  obtain env v where tick: "tick = (env, v)" by (cases tick)
  let ?o = "block (stepImpl rt env obj v)"
  from Cons.IH [of ?o] obtain c t where
    a: "afterTicks rt ?o ticks = ?o\<lparr>SampleCount := c, LastSendTime := t\<rparr>"
    and z: "TimeZone (LastSendTime ?o) \<noteq> [] \<longrightarrow> TimeZone t \<noteq> []" by blast
  from block_stepImpl [of rt env obj v]
  have "?o\<lparr>SampleCount := c, LastSendTime := t\<rparr> = obj\<lparr>SampleCount := c, LastSendTime := t\<rparr> \<and>
        (TimeZone (LastSendTime obj) \<noteq> [] \<longrightarrow> TimeZone (LastSendTime ?o) \<noteq> [])"
    by (auto simp: counted_def nowUtc_def)
  with a z tick show ?case by auto
qed

lemma counted_simps [simp]:
  "SampleCount (counted obj) = Suc (SampleCount obj)"
  "LastSendTime (counted obj) = LastSendTime obj"
  "SendInterval (counted obj) = SendInterval obj"
  "IsConnected (counted obj) = IsConnected obj"
  "TcpClient (counted obj) = TcpClient obj"
  "TransportProtocol (counted obj) = TransportProtocol obj"
  "CommunicationFormat (counted obj) = CommunicationFormat obj"
  "HMACKey (counted obj) = HMACKey obj"
  "inputStage (counted obj) v = inputStage obj v"
  "buildSendStr rt (counted obj) q ts = buildSendStr rt obj q ts"
  "sendToTelegraf (counted obj) env s = sendToTelegraf obj env s"
  by (simp_all add: counted_def)

lemma inputStage_waveform:
  assumes "UseWaveformInput obj" and "vs \<noteq> []" and "length vs = length cs"
    and "0 < SamplingRate obj" and "0 \<le> FundamentalFreq obj"
  shows "\<exists>q. inputStage obj [vs, cs] = Inr q"
  using assms(1) by (simp add: inputStage_def index1_def analyzeWaveform_valid [OF assms(2-5)])

lemma inputStage_no_inputs:
  "UseWaveformInput obj \<Longrightarrow> inputStage obj [] = Inl IndexOutOfBounds"
  by (simp add: inputStage_def index1_def)

lemma one_sample_input:
  assumes "UseWaveformInput obj" "0 < SamplingRate obj" "0 \<le> FundamentalFreq obj"
  shows "\<exists>q. inputStage obj [[230], [5]] = Inr q"
  using inputStage_waveform [OF assms(1) _ _ assms(2,3), of "[230]" "[5]"] by simp

lemma strcmpi_influx [simp]: "strcmpi ''influx'' ''influx''"
  by (simp add: strcmpi_def)

lemma buildSendStr_plain_influx:
  assumes "strcmpi (CommunicationFormat obj) ''influx''" and "HMACKey obj = []"
  shows "buildSendStr rt obj q ts = Inr (buildLineProtocolInflux rt q ts)"
  using assms by (simp add: buildSendStr_def buildPayload_def)

section \<open>The worked examples\<close>

lemma epoch_simps [simp]: "TimeZone epoch = []" "posix epoch = 0"
  by (simp_all add: epoch_def)

lemma new_block_simps [simp]:
  "UseWaveformInput new_block" "SamplingRate new_block = 4800"
  "FundamentalFreq new_block = 50" "\<not> IsConnected new_block"
  "TcpClient new_block = None" "TransportProtocol new_block = ''tcp''"
  "CommunicationFormat new_block = ''influx''" "HMACKey new_block = []"
  "SendInterval new_block = 1" "SampleCount new_block = 0"
  "LastSendTime new_block = epoch" "MeterId new_block = ''METER_001''"
  by (simp_all add: new_block_def)

lemma setupImpl_simps [simp]:
  "LastSendTime (setupImpl c obj) = LastSendTime obj"
  "SampleCount (setupImpl c obj) = SampleCount obj"
  "UseWaveformInput (setupImpl c obj) = UseWaveformInput obj"
  "SamplingRate (setupImpl c obj) = SamplingRate obj"
  "FundamentalFreq (setupImpl c obj) = FundamentalFreq obj"
  "TransportProtocol (setupImpl c obj) = TransportProtocol obj"
  "CommunicationFormat (setupImpl c obj) = CommunicationFormat obj"
  "HMACKey (setupImpl c obj) = HMACKey obj"
  "SendInterval (setupImpl c obj) = SendInterval obj"
  "MeterId (setupImpl c obj) = MeterId obj"
  by (simp_all add: setupImpl_def split: sum.splits)

lemma connected_block_simps [simp]:
  "UseWaveformInput connected_block" "SamplingRate connected_block = 4800"
  "FundamentalFreq connected_block = 50" "IsConnected connected_block"
  "TcpClient connected_block = Some 1" "TransportProtocol connected_block = ''tcp''"
  "CommunicationFormat connected_block = ''influx''" "HMACKey connected_block = []"
  "SendInterval connected_block = 1" "SampleCount connected_block = 0"
  "LastSendTime connected_block = epoch"
  by (simp_all add: connected_block_def setupImpl_def new_block_def)

lemma unopened_block_simps [simp]:
  "UseWaveformInput unopened_block" "SamplingRate unopened_block = 4800"
  "FundamentalFreq unopened_block = 50" "\<not> IsConnected unopened_block"
  "TcpClient unopened_block = None" "SampleCount unopened_block = 0"
  "LastSendTime unopened_block = epoch" "SendInterval unopened_block = 1"
  by (simp_all add: unopened_block_def setupImpl_def new_block_def)

lemma five_second_block_simps [simp]:
  "UseWaveformInput five_second_block" "SamplingRate five_second_block = 4800"
  "FundamentalFreq five_second_block = 50" "IsConnected five_second_block"
  "TcpClient five_second_block = Some 1" "TransportProtocol five_second_block = ''tcp''"
  "CommunicationFormat five_second_block = ''influx''" "HMACKey five_second_block = []"
  "SendInterval five_second_block = 5" "SampleCount five_second_block = 0"
  "LastSendTime five_second_block = epoch"
  by (simp_all add: five_second_block_def setupImpl_def new_block_def)

lemma keyed_block_simps [simp]:
  "UseWaveformInput keyed_block" "SamplingRate keyed_block = 4800"
  "FundamentalFreq keyed_block = 50" "IsConnected keyed_block"
  "TcpClient keyed_block = Some 1" "TransportProtocol keyed_block = ''tcp''"
  "CommunicationFormat keyed_block = ''influx''" "HMACKey keyed_block = ''k''"
  "SendInterval keyed_block = 1" "SampleCount keyed_block = 0"
  "LastSendTime keyed_block = epoch" "MeterId keyed_block = ''METER_001''"
  by (simp_all add: keyed_block_def setupImpl_def new_block_def)

lemma four_sample_block_simps [simp]:
  "SamplingRate four_sample_block = 4" "FundamentalFreq four_sample_block = 1"
  by (simp_all add: four_sample_block_def)

lemma sent_at_simps [simp]:
  "LastSendTime (sent_at t obj) = \<lparr> posix = t, TimeZone = ''UTC'' \<rparr>"
  "SampleCount (sent_at t obj) = SampleCount obj"
  "SendInterval (sent_at t obj) = SendInterval obj"
  "IsConnected (sent_at t obj) = IsConnected obj"
  "TcpClient (sent_at t obj) = TcpClient obj"
  "TransportProtocol (sent_at t obj) = TransportProtocol obj"
  "CommunicationFormat (sent_at t obj) = CommunicationFormat obj"
  "HMACKey (sent_at t obj) = HMACKey obj"
  "MeterId (sent_at t obj) = MeterId obj"
  "UseWaveformInput (sent_at t obj) = UseWaveformInput obj"
  "SamplingRate (sent_at t obj) = SamplingRate obj"
  "FundamentalFreq (sent_at t obj) = FundamentalFreq obj"
  "inputStage (sent_at t obj) v = inputStage obj v"
  "buildSendStr rt (sent_at t obj) q ts = buildSendStr rt obj q ts"
  by (simp_all add: sent_at_def)

lemma at_time_simps [simp]: "wallclock (at_time t) = t" "write_raises (at_time t) = False"
  by (simp_all add: at_time_def)

lemma failing_at_simps [simp]: "wallclock (failing_at t) = t" "write_raises (failing_at t)"
  by (simp_all add: failing_at_def)

lemma tick_ts_simps [simp]:
  "tick_ts (at_time 0) = 0" "tick_ts (at_time 1) = 1000000000"
  "tick_ts (at_time 2) = 2000000000" "tick_ts (at_time 5) = 5000000000"
  "tick_ts (at_time 6) = 6000000000" "tick_ts (failing_at 1) = 1000000000"
  by (simp_all add: tick_ts_def int64_def mround_def posixtime_def nowUtc_def)

lemma four_sample_analysis:
  "analyzeWaveform four_sample_block [0, 1, 1, 0] [0, 1, 1, 0] =
     Inr (fundamental_of four_sample_block [0, 1, 1, 0] [0, 1, 1, 0])"
  by (rule analyzeWaveform_valid) simp_all

lemma elapsed_of_unzoned:
  "TimeZone (LastSendTime obj) = [] \<Longrightarrow> elapsed_of env obj = Inl IncompatibleTimeZones"
  by (simp add: elapsed_of_eq)

lemma elapsed_of_sent_at [simp]:
  "elapsed_of env (sent_at t obj) = Inr (wallclock env - t)"
  by (simp add: elapsed_of_eq)

lemma stepImpl_unzoned:
  assumes "TimeZone (LastSendTime obj) = []"
  shows "stepImpl rt env obj varargin =
           \<lparr> block = counted obj, written = None, returned = Inl IncompatibleTimeZones \<rparr>"
  by (rule stepImpl_zone_error [OF elapsed_of_unzoned [OF assms]])

lemma runTicks_unzoned:
  assumes "TimeZone (LastSendTime obj) = []"
  shows "map returned (runTicks rt obj ticks) = replicate (length ticks) (Inl IncompatibleTimeZones) \<and>
         map written (runTicks rt obj ticks) = replicate (length ticks) None"
  using assms
proof (induction ticks arbitrary: obj)
  case Nil
  show ?case by simp
next
  case (Cons tick ticks)
  obtain env v where tick: "tick = (env, v)" by (cases tick)
  have "TimeZone (LastSendTime (counted obj)) = []" using Cons.prems by simp
  from Cons.IH [OF this] show ?case
    by (simp add: tick stepImpl_unzoned [OF Cons.prems])
qed

lemma returned_zoned:
  assumes "TimeZone (LastSendTime obj) \<noteq> []"
  shows "\<exists>st. st \<in> {1, 0, - 1} \<and> returned (stepImpl rt env obj varargin) = Inr (st, tick_ts env)"
  using assms
  by (cases rule: stepImpl_cases [where obj = obj and varargin = varargin and env = env and rt = rt])
     (simp_all add: stepImpl_results elapsed_of_eq)

lemma gate_scenario:
  assumes i: "SendInterval obj = 5" and c: "SampleCount obj = 0"
    and l: "LastSendTime obj = \<lparr> posix = 0, TimeZone = ''UTC'' \<rparr>"
    and conn: "IsConnected obj" and cl: "TcpClient obj \<noteq> None"
    and p: "TransportProtocol obj = ''tcp'' \<or> TransportProtocol obj = ''udp''"
    and q: "inputStage obj v = Inr q"
    and e: "\<forall>ts. \<not> isl (buildSendStr rt obj q ts)"
  shows "map returned (runTicks rt obj
           [(at_time 0, v), (at_time 1, v), (at_time 2, v), (at_time 6, v)])
           = [Inr (1, 0), Inr (0, 1000000000), Inr (0, 2000000000), Inr (1, 6000000000)]"
proof -
  define o1 where "o1 = (counted obj)\<lparr>LastSendTime := nowUtc (at_time 0)\<rparr>"
  define o2 where "o2 = counted o1"
  define o3 where "o3 = counted o2"
  from e have enc: "\<exists>s. buildSendStr rt obj q ts = Inr s" for ts
    by (cases "buildSendStr rt obj q ts") (auto dest: spec [of _ ts])
  obtain s0 where s0: "buildSendStr rt obj q (tick_ts (at_time 0)) = Inr s0"
    using enc by blast
  have e0: "elapsed_of (at_time 0) obj = Inr 0" using l by (simp add: elapsed_of_eq)
  have d0: "sendDue (counted obj) 0" using c by (simp add: sendDue_def)
  have t0: "stepImpl rt (at_time 0) obj v =
      \<lparr> block = o1, written = Some (map of_char s0), returned = Inr (1, 0) \<rparr>"
    using stepImpl_sent [OF e0 q d0 conn s0 p cl] by (simp add: o1_def)
  have q1: "inputStage o1 v = Inr q" using q by (simp add: o1_def)
  have e1: "elapsed_of (at_time 1) o1 = Inr 1" by (simp add: elapsed_of_eq o1_def nowUtc_def)
  have d1: "\<not> sendDue (counted o1) 1" using i by (simp add: sendDue_def o1_def)
  have t1: "stepImpl rt (at_time 1) o1 v =
      \<lparr> block = o2, written = None, returned = Inr (0, 1000000000) \<rparr>"
    using stepImpl_not_due [OF e1 q1 d1] by (simp add: o2_def)
  have q2: "inputStage o2 v = Inr q" using q1 by (simp add: o2_def)
  have e2: "elapsed_of (at_time 2) o2 = Inr 2"
    by (simp add: elapsed_of_eq o2_def o1_def nowUtc_def)
  have d2: "\<not> sendDue (counted o2) 2" using i by (simp add: sendDue_def o2_def o1_def)
  have t2: "stepImpl rt (at_time 2) o2 v =
      \<lparr> block = o3, written = None, returned = Inr (0, 2000000000) \<rparr>"
    using stepImpl_not_due [OF e2 q2 d2] by (simp add: o3_def)
  have q3: "inputStage o3 v = Inr q" using q2 by (simp add: o3_def)
  have e3: "elapsed_of (at_time 6) o3 = Inr 6"
    by (simp add: elapsed_of_eq o3_def o2_def o1_def nowUtc_def)
  have d3: "sendDue (counted o3) 6" using i by (simp add: sendDue_def o3_def o2_def o1_def)
  have c3: "IsConnected o3" "TcpClient o3 \<noteq> None"
    "TransportProtocol o3 = ''tcp'' \<or> TransportProtocol o3 = ''udp''"
    using conn cl p by (simp_all add: o3_def o2_def o1_def)
  obtain s3 where "buildSendStr rt obj q (tick_ts (at_time 6)) = Inr s3"
    using enc by blast
  then have s3: "buildSendStr rt o3 q (tick_ts (at_time 6)) = Inr s3"
    by (simp add: o3_def o2_def o1_def)
  have t3: "returned (stepImpl rt (at_time 6) o3 v) = Inr (1, 6000000000)"
    using stepImpl_sent [OF e3 q3 d3 c3(1) s3 c3(3) c3(2)] by simp
  show ?thesis by (simp add: t0 t1 t2 t3)
qed

section \<open>The claims\<close>

text \<open>
  C1 (defect of the code). The claim is that no error leaves stepImpl. Line 77 subtracts
  LastSendTime from the UTC-zoned capture time before the try block begins. On a new
  object, after setupImpl and after resetImpl, LastSendTime is the unzoned
  \<open>datetime(1970,1,1)\<close>, so the subtraction raises and the error leaves the method: the
  call returns no status and no timestamp. Only on an object whose LastSendTime has a
  time zone does the call return, and then with a status among 1, 0 and -1 and the
  capture time in nanoseconds.
\<close>

theorem stepImpl_raises_past_try:
  "returned (stepImpl rt env new_block varargin) = Inl IncompatibleTimeZones \<and>
   returned (stepImpl rt env (setupImpl c new_block) varargin) = Inl IncompatibleTimeZones \<and>
   returned (stepImpl rt env (resetImpl obj) varargin) = Inl IncompatibleTimeZones \<and>
   (TimeZone (LastSendTime obj) = [] \<longrightarrow>
      returned (stepImpl rt env obj varargin) = Inl IncompatibleTimeZones) \<and>
   (TimeZone (LastSendTime obj) \<noteq> [] \<longrightarrow>
      (\<exists>st. st \<in> {1, 0, - 1} \<and>
         returned (stepImpl rt env obj varargin) =
           Inr (st, int64 (posixtime (nowUtc env) * 10 ^ 9))))"
  using returned_zoned [of obj rt env varargin]
  by (simp add: stepImpl_unzoned resetImpl_def tick_ts_def)

theorem stepImpl_raises_past_try_witness:
  "returned (stepImpl example_runtime (at_time 5) connected_block [[230], [5]])
     = Inl IncompatibleTimeZones \<and>
   returned (stepImpl example_runtime (at_time 5) (resetImpl connected_block) [[230], [5]])
     = Inl IncompatibleTimeZones \<and>
   TimeZone (LastSendTime connected_block) = []"
  using stepImpl_raises_past_try
          [of example_runtime "at_time 5" "[[230], [5]]" "Inr 1" connected_block]
  by (simp add: connected_block_def)

text \<open>
  C2 (amended). The analysis of waveform mode raises the error of line 88 exactly when a
  sample sequence is empty or the two lengths differ. With a positive sampling rate and
  a non-negative nominal frequency this is its only failure: every pair of non-empty
  sequences of equal length is analysed. There is no guard on \<open>N \<ge> 2\<close>, a pair of
  sequences of length 1 is analysed like any other, as the example after the witness
  shows.
\<close>

theorem analyzeWaveform_window_guard:
  "(analyzeWaveform obj vs cs = Inl WaveformInputsInvalid) =
     (vs = [] \<or> cs = [] \<or> length vs \<noteq> length cs) \<and>
   (0 < SamplingRate obj \<and> 0 \<le> FundamentalFreq obj \<longrightarrow>
      isl (analyzeWaveform obj vs cs) = (vs = [] \<or> cs = [] \<or> length vs \<noteq> length cs)) \<and>
   (0 < SamplingRate obj \<and> 0 \<le> FundamentalFreq obj \<and> length vs = 1 \<and> length cs = 1 \<longrightarrow>
      \<not> isl (analyzeWaveform obj vs cs))"
proof (cases "vs = [] \<or> cs = [] \<or> length vs \<noteq> length cs")
  case True
  then show ?thesis
    using analyzeWaveform_invalid [OF True, of obj] by auto
next
  case False
  then have v: "vs \<noteq> []" "length vs = length cs" by auto
  have "analyzeWaveform obj vs cs \<noteq> Inl WaveformInputsInvalid"
    using analyzeWaveform_error_cases [of obj vs cs WaveformInputsInvalid] False by auto
  moreover have "\<not> isl (analyzeWaveform obj vs cs)"
    if "0 < SamplingRate obj" "0 \<le> FundamentalFreq obj"
    using analyzeWaveform_valid [OF v that] by simp
  ultimately show ?thesis using False by auto
qed

theorem analyzeWaveform_window_guard_witness:
  "0 < SamplingRate new_block \<and> 0 \<le> FundamentalFreq new_block \<and>
   analyzeWaveform new_block [1, 2] [3] = Inl WaveformInputsInvalid \<and>
   isl (analyzeWaveform new_block [] []) \<and>
   \<not> isl (analyzeWaveform new_block [230] [5]) \<and>
   \<not> isl (analyzeWaveform new_block [230, 231] [5, 6])"
  using analyzeWaveform_window_guard [of new_block "[1, 2]" "[3]"]
    analyzeWaveform_window_guard [of new_block "[]" "[]"]
    analyzeWaveform_window_guard [of new_block "[230]" "[5]"]
    analyzeWaveform_window_guard [of new_block "[230, 231]" "[5, 6]"]
  by simp

theorem single_sample_counterexample:
  "\<not> isl (analyzeWaveform connected_block [230] [5]) \<and>
   \<not> isl (inputStage connected_block [[230], [5]])"
proof -
  have a: "analyzeWaveform connected_block [230] [5] =
             Inr (fundamental_of connected_block [230] [5])"
    by (rule analyzeWaveform_valid) simp_all
  obtain q where q: "inputStage connected_block [[230], [5]] = Inr q"
    using inputStage_waveform [of connected_block "[230]" "[5]"] by auto
  from a q show ?thesis by simp
qed

text \<open>
  C3 (defect of the code). The claim describes the send gate and gives the scenario of
  ticks at t = 0, 1, 2, 6 with SendInterval = 5 on a connected object: sent, skipped,
  skipped, sent. On the object that setupImpl leaves, every one of the four calls raises
  at line 77 (the unzoned LastSendTime), before the gate of line 171 is evaluated: no
  status is returned and nothing is written. The gate itself is as the claim says: on
  the same object with a zoned LastSendTime the four calls return 1, 0, 0, 1.
\<close>

theorem gate_scenario_raises:
  "map returned (runTicks rt five_second_block
      [(at_time 0, v), (at_time 1, v), (at_time 2, v), (at_time 6, v)])
     = [Inl IncompatibleTimeZones, Inl IncompatibleTimeZones,
        Inl IncompatibleTimeZones, Inl IncompatibleTimeZones] \<and>
   map written (runTicks rt five_second_block
      [(at_time 0, v), (at_time 1, v), (at_time 2, v), (at_time 6, v)])
     = [None, None, None, None] \<and>
   map returned (runTicks example_runtime (sent_at 0 five_second_block)
      [(at_time 0, [[230], [5]]), (at_time 1, [[230], [5]]),
       (at_time 2, [[230], [5]]), (at_time 6, [[230], [5]])])
     = [Inr (1, 0), Inr (0, 1000000000), Inr (0, 2000000000), Inr (1, 6000000000)]"
proof -
  have u: "TimeZone (LastSendTime five_second_block) = []" by simp
  obtain q where q: "inputStage (sent_at 0 five_second_block) [[230], [5]] = Inr q"
    using one_sample_input [of five_second_block] by auto
  have e: "\<forall>ts. \<not> isl (buildSendStr example_runtime (sent_at 0 five_second_block) q ts)"
    by (simp add: buildSendStr_plain_influx)
  have "map returned (runTicks example_runtime (sent_at 0 five_second_block)
      [(at_time 0, [[230], [5]]), (at_time 1, [[230], [5]]),
       (at_time 2, [[230], [5]]), (at_time 6, [[230], [5]])])
     = [Inr (1, 0), Inr (0, 1000000000), Inr (0, 2000000000), Inr (1, 6000000000)]"
    by (rule gate_scenario [OF _ _ _ _ _ _ q e]) simp_all
  with runTicks_unzoned [OF u, of rt
      "[(at_time 0, v), (at_time 1, v), (at_time 2, v), (at_time 6, v)]"]
  show ?thesis by (simp add: numeral_eq_Suc)
qed

theorem gate_scenario_raises_witness:
  "map returned (runTicks example_runtime five_second_block
      [(at_time 0, [[230], [5]]), (at_time 1, [[230], [5]]),
       (at_time 2, [[230], [5]]), (at_time 6, [[230], [5]])])
     = [Inl IncompatibleTimeZones, Inl IncompatibleTimeZones,
        Inl IncompatibleTimeZones, Inl IncompatibleTimeZones]"
  using gate_scenario_raises [of example_runtime "[[230], [5]]"] by simp

text \<open>
  C4 (amended). For a window of N equal-length samples (N at least 1), a positive sampling
  rate fs and a non-negative nominal frequency f, the analysis reads both transforms of
  the Hann-windowed sequences at the one-based subscript k = round(f * N / fs) + 1, wrapped
  into 1..N by ((k-1) mod N) + 1 when it exceeds N, that is at (round(f * N / fs) mod N) + 1,
  and reports Vrms_fund = |V1|/N/sqrt 2, Irms_fund = |I1|/N/sqrt 2, S = Vrms_fund * Irms_fund,
  P_fund = Re(V1 * conj I1)/N^2 and Q_fund = Im(V1 * conj I1)/N^2. The subscript
  round(f * N / fs) of the specification is one less; the example after the witness is a
  window of four samples where the two subscripts and the two values of Vrms_fund
  differ.
\<close>

theorem fundamental_bin_and_phasors:
  assumes "vs \<noteq> []" and "length vs = length cs"
    and "0 < SamplingRate obj" and "0 \<le> FundamentalFreq obj"
  shows "\<exists>a. analyzeWaveform obj vs cs = Inr a \<and>
           kFund a = mround (FundamentalFreq obj * real (length vs) / SamplingRate obj)
                       mod int (length vs) + 1 \<and>
           1 \<le> kFund a \<and> kFund a \<le> int (length vs) \<and>
           V1 a = fft (times vs (hann (length vs))) ! nat (kFund a - 1) \<and>
           I1 a = fft (times cs (hann (length vs))) ! nat (kFund a - 1) \<and>
           Vrms_fund a = cmod (V1 a) / real (length vs) / sqrt 2 \<and>
           Irms_fund a = cmod (I1 a) / real (length vs) / sqrt 2 \<and>
           S_app a = Vrms_fund a * Irms_fund a \<and>
           P_fund a = Re (V1 a * cnj (I1 a)) / (real (length vs)) ^ 2 \<and>
           Q_fund a = Im (V1 a * cnj (I1 a)) / (real (length vs)) ^ 2"
proof -
  have n: "0 < length vs" using assms(1) by simp
  have q: "0 \<le> FundamentalFreq obj * real (length vs) / SamplingRate obj"
    using assms(3,4) by simp
  have "analyzeWaveform obj vs cs = Inr (fundamental_of obj vs cs)"
    using assms by (rule analyzeWaveform_valid)
  moreover have "kFund (fundamental_of obj vs cs) =
      mround (FundamentalFreq obj * real (length vs) / SamplingRate obj) mod int (length vs) + 1"
    by (simp add: fundamental_of_def Let_def fundamentalBin_wrap [OF n q])
  moreover have "1 \<le> kFund (fundamental_of obj vs cs) \<and>
      kFund (fundamental_of obj vs cs) \<le> int (length vs)"
    using fundamentalBin_range [OF n q] by (simp add: fundamental_of_def Let_def)
  ultimately show ?thesis
    by (intro exI [of _ "fundamental_of obj vs cs"]) (simp add: fundamental_of_def Let_def)
qed

theorem fundamental_bin_witness:
  "[0, 1, 1, 0] \<noteq> ([] :: real list) \<and>
   0 < SamplingRate four_sample_block \<and> 0 \<le> FundamentalFreq four_sample_block \<and>
   map_sum id kFund (analyzeWaveform four_sample_block [0, 1, 1, 0] [0, 1, 1, 0]) = Inr 2"
  using fundamental_bin_and_phasors [of "[0, 1, 1, 0]" "[0, 1, 1, 0]" four_sample_block]
  by (auto simp: mround_def)

theorem spec_bin_counterexample:
  "map_sum id kFund (analyzeWaveform four_sample_block [0, 1, 1, 0] [0, 1, 1, 0]) = Inr 2 \<and>
   spec_fundamentalBin 1 4 4 = 1 \<and>
   map_sum id Vrms_fund (analyzeWaveform four_sample_block [0, 1, 1, 0] [0, 1, 1, 0])
     = Inr (3 / 16) \<and>
   spec_Vrms_fund 1 4 [0, 1, 1, 0] = 3 / (8 * sqrt 2) \<and>
   3 / 16 \<noteq> 3 / (8 * sqrt 2)"
proof -
  have k: "map_sum id kFund (analyzeWaveform four_sample_block [0, 1, 1, 0] [0, 1, 1, 0]) = Inr 2"
    by (simp add: four_sample_analysis fundamental_of_def Suc4 four_sample_bin Let_def)
  have sk: "spec_fundamentalBin 1 4 4 = 1"
    by (simp add: spec_fundamentalBin_def mround_def)
  have v: "map_sum id Vrms_fund (analyzeWaveform four_sample_block [0, 1, 1, 0] [0, 1, 1, 0])
             = Inr (3 / 16)"
    by (simp add: four_sample_analysis fundamental_of_def Suc4 four_sample_bin Let_def
          windowed_4 fft_4_bin1 cmod_diag)
  have sv: "spec_Vrms_fund 1 4 [0, 1, 1, 0] = 3 / (8 * sqrt 2)"
    by (simp add: spec_Vrms_fund_def Suc4 sk windowed_4 fft_4_bin0 Let_def)
  have ne: "(3 / 16 :: real) \<noteq> 3 / (8 * sqrt 2)"
    using sqrt2_neq_2 by (simp add: field_simps)
  from k sk v sv ne show ?thesis by blast
qed

text \<open>
  C5 (defect of the code). The claim is that a tick on a session that was never opened
  reports status 0. On the object that a failed setupImpl leaves, the call raises at
  line 77 (the unzoned LastSendTime) and reports no status; nothing is written. The
  branch of lines 205 to 208 is as the claim says: on an unconnected object whose
  LastSendTime has a time zone, the call writes nothing, leaves the connection alone and
  returns 0, or -1 when the inputs were rejected before the gate.
\<close>

theorem unopened_block_raises:
  "returned (stepImpl rt env unopened_block varargin) = Inl IncompatibleTimeZones \<and>
   written (stepImpl rt env unopened_block varargin) = None \<and>
   (\<not> IsConnected obj \<and> TimeZone (LastSendTime obj) = [] \<longrightarrow>
      returned (stepImpl rt env obj varargin) = Inl IncompatibleTimeZones) \<and>
   (\<not> IsConnected obj \<and> TimeZone (LastSendTime obj) \<noteq> [] \<longrightarrow>
      written (stepImpl rt env obj varargin) = None \<and>
      block (stepImpl rt env obj varargin) = counted obj \<and>
      returned (stepImpl rt env obj varargin) =
        Inr (if isl (inputStage obj varargin) then - 1 else 0, tick_ts env))"
proof -
  have "written (stepImpl rt env obj varargin) = None \<and>
      block (stepImpl rt env obj varargin) = counted obj \<and>
      returned (stepImpl rt env obj varargin) =
        Inr (if isl (inputStage obj varargin) then - 1 else 0, tick_ts env)"
    if "\<not> IsConnected obj" "TimeZone (LastSendTime obj) \<noteq> []"
    using that
    by (cases rule: stepImpl_cases [where obj = obj and varargin = varargin and env = env and rt = rt])
       (simp_all add: stepImpl_results elapsed_of_eq)
  then show ?thesis
    by (simp add: stepImpl_unzoned)
qed

theorem unopened_block_raises_witness:
  "\<not> IsConnected unopened_block \<and> TimeZone (LastSendTime unopened_block) = [] \<and>
   returned (stepImpl example_runtime (at_time 0) unopened_block [[230], [5]])
     = Inl IncompatibleTimeZones \<and>
   \<not> IsConnected (sent_at 0 unopened_block) \<and>
   TimeZone (LastSendTime (sent_at 0 unopened_block)) \<noteq> [] \<and>
   returned (stepImpl example_runtime (at_time 0) (sent_at 0 unopened_block) [[230], [5]])
     = Inr (0, 0)"
proof -
  obtain q where q: "inputStage unopened_block [[230], [5]] = Inr q"
    using one_sample_input [of unopened_block] by auto
  from unopened_block_raises [of example_runtime "at_time 0" "[[230], [5]]" unopened_block]
    unopened_block_raises
      [of example_runtime "at_time 0" "[[230], [5]]" "sent_at 0 unopened_block"] q
  show ?thesis by simp
qed

text \<open>
  C6 (amended). A tick whose write on the transport raised returns -1 and leaves the
  connection as it was: IsConnected stays true and the client object is kept, the object
  has no failed state, and no later call of stepImpl changes either. After any number
  of further ticks, a tick that is due and whose inputs and encoding are accepted hands
  its message to the transport again, and returns 1 if that write does not raise. The
  examples are on an object with a zoned LastSendTime, since every call on an object with
  the unzoned default raises at line 77: a failed write at t = 1 followed by a
  successful send at t = 2; and sendToTelegraf itself, which raises and changes no
  property.
\<close>

theorem send_error_keeps_connection:
  assumes "written (stepImpl rt env obj varargin) = Some b"
    and "returned (stepImpl rt env obj varargin) = Inr (- 1, ts)"
  shows "IsConnected obj \<and>
         IsConnected (afterTicks rt (block (stepImpl rt env obj varargin)) ticks) \<and>
         TcpClient (afterTicks rt (block (stepImpl rt env obj varargin)) ticks) = TcpClient obj \<and>
         (\<exists>e'. elapsed_of env' (afterTicks rt (block (stepImpl rt env obj varargin)) ticks)
                  = Inr e') \<and>
         (elapsed_of env' (afterTicks rt (block (stepImpl rt env obj varargin)) ticks) = Inr e' \<and>
          sendDue (counted (afterTicks rt (block (stepImpl rt env obj varargin)) ticks)) e' \<and>
          inputStage (afterTicks rt (block (stepImpl rt env obj varargin)) ticks) varargin'
            = Inr q' \<and>
          buildSendStr rt (afterTicks rt (block (stepImpl rt env obj varargin)) ticks) q'
            (tick_ts env') = Inr s' \<longrightarrow>
            written (stepImpl rt env'
                      (afterTicks rt (block (stepImpl rt env obj varargin)) ticks) varargin')
              = Some (map of_char s') \<and>
            returned (stepImpl rt env'
                      (afterTicks rt (block (stepImpl rt env obj varargin)) ticks) varargin')
              = Inr (if TcpClient obj = None \<or> write_raises env' then - 1 else 1,
                     tick_ts env'))"
proof -
  let ?o = "afterTicks rt (block (stepImpl rt env obj varargin)) ticks"
  from written_Some [OF assms(1)] obtain e where
    conn: "IsConnected obj" and el: "elapsed_of env obj = Inr e"
    and p: "TransportProtocol obj = ''tcp'' \<or> TransportProtocol obj = ''udp''"
    by blast
  from el have z: "TimeZone (LastSendTime obj) \<noteq> []"
    by (simp add: elapsed_of_eq split: if_splits)
  have b: "block (stepImpl rt env obj varargin) = counted obj"
    using assms(2) by (simp add: block_stepImpl_eq)
  have zc: "TimeZone (LastSendTime (counted obj)) \<noteq> []" using z by simp
  from afterTicks_shape [of rt "counted obj" ticks] zc obtain c t where
    sh: "afterTicks rt (counted obj) ticks = (counted obj)\<lparr>SampleCount := c, LastSendTime := t\<rparr>"
    and zt: "TimeZone t \<noteq> []"
    by blast
  have o: "?o = obj\<lparr>SampleCount := c, LastSendTime := t\<rparr>"
    unfolding b sh by (simp add: counted_def)
  have e': "elapsed_of env' ?o = Inr (wallclock env' - posix t)"
    using zt by (simp add: o elapsed_of_eq)
  have later: "written (stepImpl rt env' ?o varargin') = Some (map of_char s') \<and>
        returned (stepImpl rt env' ?o varargin')
          = Inr (if TcpClient obj = None \<or> write_raises env' then - 1 else 1, tick_ts env')"
    if h: "elapsed_of env' ?o = Inr e'" "sendDue (counted ?o) e'"
      "inputStage ?o varargin' = Inr q'" "buildSendStr rt ?o q' (tick_ts env') = Inr s'"
  proof -
    have c': "IsConnected ?o" "TransportProtocol ?o = ''tcp'' \<or> TransportProtocol ?o = ''udp''"
      "TcpClient ?o = TcpClient obj"
      using conn p by (simp_all add: o)
    show ?thesis
    proof (cases "TcpClient obj = None \<or> write_raises env'")
      case True
      then have "TcpClient ?o = None \<or> write_raises env'" using c'(3) by simp
      from stepImpl_send_failed [OF h(1,3,2) c'(1) h(4) c'(2) this] True show ?thesis by simp
    next
      case False
      then have "TcpClient ?o \<noteq> None" "\<not> write_raises env'" using c'(3) by simp_all
      from stepImpl_sent [OF h(1,3,2) c'(1) h(4) c'(2) this] False show ?thesis by simp
    qed
  qed
  show ?thesis
  proof (intro conjI impI)
    show "IsConnected obj" by (rule conn)
    show "IsConnected ?o" using conn by (simp add: o)
    show "TcpClient ?o = TcpClient obj" by (simp add: o)
    show "\<exists>e'. elapsed_of env' ?o = Inr e'" using e' by (rule exI)
  next
    assume a: "elapsed_of env' ?o = Inr e' \<and> sendDue (counted ?o) e' \<and>
      inputStage ?o varargin' = Inr q' \<and> buildSendStr rt ?o q' (tick_ts env') = Inr s'"
    then have h: "elapsed_of env' ?o = Inr e'" "sendDue (counted ?o) e'"
      "inputStage ?o varargin' = Inr q'" "buildSendStr rt ?o q' (tick_ts env') = Inr s'"
      by simp_all
    from later [OF h]
    show "written (stepImpl rt env' ?o varargin') = Some (map of_char s')"
      and "returned (stepImpl rt env' ?o varargin')
          = Inr (if TcpClient obj = None \<or> write_raises env' then - 1 else 1, tick_ts env')"
      by simp_all
  qed
qed

lemma failed_first_send:
  assumes q: "inputStage obj [[230], [5]] = Inr q"
    and o: "SampleCount obj = 0" "IsConnected obj" "TcpClient obj \<noteq> None"
      "TransportProtocol obj = ''tcp''" "strcmpi (CommunicationFormat obj) ''influx''"
      "HMACKey obj = []"
  shows "stepImpl example_runtime (failing_at 1) (sent_at 0 obj) [[230], [5]] =
      \<lparr> block = counted (sent_at 0 obj),
        written = Some (map of_char
          (buildLineProtocolInflux example_runtime q (tick_ts (failing_at 1)))),
        returned = Inr (- 1, 1000000000) \<rparr>"
proof -
  have "stepImpl example_runtime (failing_at 1) (sent_at 0 obj) [[230], [5]] =
      \<lparr> block = counted (sent_at 0 obj),
        written = Some (map of_char
          (buildLineProtocolInflux example_runtime q (tick_ts (failing_at 1)))),
        returned = Inr (- 1, tick_ts (failing_at 1)) \<rparr>"
    by (rule stepImpl_send_failed [OF elapsed_of_sent_at _ _ _ buildSendStr_plain_influx])
       (use q o in \<open>simp_all add: sendDue_def\<close>)
  then show ?thesis by simp
qed

lemma retry_send:
  assumes q: "inputStage obj [[230], [5]] = Inr q"
    and o: "SampleCount obj = 0" "IsConnected obj" "TcpClient obj \<noteq> None"
      "TransportProtocol obj = ''tcp''" "strcmpi (CommunicationFormat obj) ''influx''"
      "HMACKey obj = []" "SendInterval obj \<le> 2"
  shows "stepImpl example_runtime (at_time 2) (counted (sent_at 0 obj)) [[230], [5]] =
      \<lparr> block = (counted (counted (sent_at 0 obj)))\<lparr>LastSendTime := nowUtc (at_time 2)\<rparr>,
        written = Some (map of_char
          (buildLineProtocolInflux example_runtime q (tick_ts (at_time 2)))),
        returned = Inr (1, 2000000000) \<rparr>"
proof -
  have e: "elapsed_of (at_time 2) (counted (sent_at 0 obj)) = Inr 2"
    by (simp add: elapsed_of_eq)
  have "stepImpl example_runtime (at_time 2) (counted (sent_at 0 obj)) [[230], [5]] =
      \<lparr> block = (counted (counted (sent_at 0 obj)))\<lparr>LastSendTime := nowUtc (at_time 2)\<rparr>,
        written = Some (map of_char
          (buildLineProtocolInflux example_runtime q (tick_ts (at_time 2)))),
        returned = Inr (1, tick_ts (at_time 2)) \<rparr>"
    by (rule stepImpl_sent [OF e _ _ _ buildSendStr_plain_influx])
       (use q o in \<open>simp_all add: sendDue_def\<close>)
  then show ?thesis by simp
qed

theorem send_error_keeps_connection_witness:
  "returned (stepImpl example_runtime (failing_at 1) (sent_at 0 connected_block) [[230], [5]])
     = Inr (- 1, 1000000000) \<and>
   IsConnected (block
     (stepImpl example_runtime (failing_at 1) (sent_at 0 connected_block) [[230], [5]])) \<and>
   TcpClient (block
     (stepImpl example_runtime (failing_at 1) (sent_at 0 connected_block) [[230], [5]]))
     = Some 1 \<and>
   returned (stepImpl example_runtime (at_time 2)
     (block (stepImpl example_runtime (failing_at 1) (sent_at 0 connected_block) [[230], [5]]))
     [[230], [5]]) = Inr (1, 2000000000)"
proof -
  obtain q where q: "inputStage connected_block [[230], [5]] = Inr q"
    using one_sample_input [of connected_block] by auto
  note f = failed_first_send [OF q, simplified]
  have e: "elapsed_of (at_time 2) (counted (sent_at 0 connected_block)) = Inr 2"
    by (simp add: elapsed_of_eq)
  from send_error_keeps_connection
         [of example_runtime "failing_at 1" "sent_at 0 connected_block" "[[230], [5]]"
             _ _ "[]" "at_time 2" 2 "[[230], [5]]" q
             "buildLineProtocolInflux example_runtime q (tick_ts (at_time 2))"]
       q e
  show ?thesis by (simp add: f buildSendStr_plain_influx sendDue_def)
qed

theorem no_failed_state_counterexample:
  "snd (sendToTelegraf connected_block (failing_at 1) ''x'') = Inl FailedToSend \<and>
   IsConnected connected_block \<and>
   returned (stepImpl example_runtime (failing_at 1) (sent_at 0 connected_block) [[230], [5]])
     = Inr (- 1, 1000000000) \<and>
   written (stepImpl example_runtime (failing_at 1) (sent_at 0 connected_block) [[230], [5]])
     \<noteq> None \<and>
   IsConnected (block
     (stepImpl example_runtime (failing_at 1) (sent_at 0 connected_block) [[230], [5]])) \<and>
   returned (stepImpl example_runtime (at_time 2)
     (block (stepImpl example_runtime (failing_at 1) (sent_at 0 connected_block) [[230], [5]]))
     [[230], [5]]) = Inr (1, 2000000000) \<and>
   written (stepImpl example_runtime (at_time 2)
     (block (stepImpl example_runtime (failing_at 1) (sent_at 0 connected_block) [[230], [5]]))
     [[230], [5]]) \<noteq> None"
proof -
  obtain q where q: "inputStage connected_block [[230], [5]] = Inr q"
    using one_sample_input [of connected_block] by auto
  show ?thesis
    by (simp add: failed_first_send [OF q, simplified] retry_send [OF q, simplified]
          sendToTelegraf_def)
qed

text \<open>
  C7. LastSendTime after a call is the capture time of the tick when the call returns
  status 1 and its previous value in every other case: status 0, status -1, and the call
  that raises at line 77. With the tcp or udp transport the status is 1 only when the
  write was made on an existing client object and did not raise.
\<close>

theorem LastSendTime_only_on_success:
  "LastSendTime (block (stepImpl rt env obj varargin)) =
     (if returned (stepImpl rt env obj varargin) = Inr (1, tick_ts env) then nowUtc env
      else LastSendTime obj) \<and>
   (returned (stepImpl rt env obj varargin) = Inr (st, ts) \<longrightarrow>
      st \<in> {1, 0, - 1} \<and> ts = tick_ts env) \<and>
   (returned (stepImpl rt env obj varargin) = Inr (1, ts) \<and>
    (TransportProtocol obj = ''tcp'' \<or> TransportProtocol obj = ''udp'') \<longrightarrow>
      written (stepImpl rt env obj varargin) \<noteq> None \<and> \<not> write_raises env \<and>
      TcpClient obj \<noteq> None)"
proof (intro conjI impI)
  show "LastSendTime (block (stepImpl rt env obj varargin)) =
     (if returned (stepImpl rt env obj varargin) = Inr (1, tick_ts env) then nowUtc env
      else LastSendTime obj)"
    by (rule LastSendTime_stepImpl)
next
  assume "returned (stepImpl rt env obj varargin) = Inr (st, ts)"
  from returned_stepImpl [OF this] show "st \<in> {1, 0, - 1}" and "ts = tick_ts env"
    by simp_all
next
  assume a: "returned (stepImpl rt env obj varargin) = Inr (1, ts) \<and>
    (TransportProtocol obj = ''tcp'' \<or> TransportProtocol obj = ''udp'')"
  then have "written (stepImpl rt env obj varargin) \<noteq> None \<and> \<not> write_raises env \<and>
         TcpClient obj \<noteq> None"
    using returned_1 [of rt env obj varargin ts] by simp
  then show "written (stepImpl rt env obj varargin) \<noteq> None" and "\<not> write_raises env"
    and "TcpClient obj \<noteq> None"
    by simp_all
qed

theorem LastSendTime_only_on_success_witness:
  "LastSendTime (block (stepImpl example_runtime (at_time 5) connected_block [[230], [5]]))
     = epoch \<and>
   returned (stepImpl example_runtime (failing_at 1) (sent_at 0 connected_block) [[230], [5]])
     = Inr (- 1, 1000000000) \<and>
   LastSendTime (block
     (stepImpl example_runtime (failing_at 1) (sent_at 0 connected_block) [[230], [5]]))
     = \<lparr> posix = 0, TimeZone = ''UTC'' \<rparr> \<and>
   returned (stepImpl example_runtime (at_time 2) (counted (sent_at 0 connected_block))
     [[230], [5]]) = Inr (1, 2000000000) \<and>
   LastSendTime (block (stepImpl example_runtime (at_time 2)
     (counted (sent_at 0 connected_block)) [[230], [5]]))
     = \<lparr> posix = 2, TimeZone = ''UTC'' \<rparr>"
proof -
  obtain q where q: "inputStage connected_block [[230], [5]] = Inr q"
    using one_sample_input [of connected_block] by auto
  have u: "returned (stepImpl example_runtime (at_time 5) connected_block [[230], [5]])
             = Inl IncompatibleTimeZones"
    by (simp add: stepImpl_unzoned)
  from u LastSendTime_only_on_success
      [of example_runtime "at_time 5" connected_block "[[230], [5]]"]
    LastSendTime_only_on_success
      [of example_runtime "failing_at 1" "sent_at 0 connected_block" "[[230], [5]]"]
    LastSendTime_only_on_success
      [of example_runtime "at_time 2" "counted (sent_at 0 connected_block)" "[[230], [5]]"]
  show ?thesis
    by (simp add: failed_first_send [OF q, simplified] retry_send [OF q, simplified] nowUtc_def)
qed

text \<open>
  C8. Whenever a call of stepImpl hands bytes to the transport, they are the bytes of:
  without a key, the encoded payload itself; with a key, the JSON serialisation of the
  envelope with the fields payload, hmac, meter_id and timestamp_ns, where hmac is the
  lowercase hexadecimal form of the MAC that the runtime computes from the bytes of the
  key and the bytes of that same payload. The hexadecimal form has two digits for every
  byte whenever some byte of the MAC is at least 16; dec2hex pads every row to the
  width of the largest element only, so a MAC whose bytes are all below 16 would be
  written with one digit for every byte.
\<close>

theorem transmitted_bytes:
  assumes "written (stepImpl rt env obj varargin) = Some b"
  shows "\<exists>q payload.
           inputStage obj varargin = Inr q \<and>
           buildPayload rt obj q (tick_ts env) = Inr payload \<and>
           (if HMACKey obj = [] then b = map of_char payload
            else \<exists>s. b = map of_char s \<and>
                   jsonencode rt
                     (Struct [(''payload'', Chars payload),
                        (''hmac'', Chars
                           (if list_ex (\<lambda>x. 16 \<le> unat x)
                                 (HmacSHA256 rt (map of_char (HMACKey obj)) (map of_char payload))
                            then spec_lowercase_hex
                                   (HmacSHA256 rt (map of_char (HMACKey obj)) (map of_char payload))
                            else map (\<lambda>x. ''0123456789abcdef'' ! unat x)
                                   (HmacSHA256 rt (map of_char (HMACKey obj))
                                      (map of_char payload)))),
                        (''meter_id'', Chars (MeterId obj)),
                        (''timestamp_ns'', Int64 (tick_ts env))]) = Inr s)"
proof -
  from written_Some [OF assms] obtain q s where
    q: "inputStage obj varargin = Inr q" and bs: "buildSendStr rt obj q (tick_ts env) = Inr s"
    and b: "b = map of_char s"
    by blast
  from bs obtain payload where
    p: "buildPayload rt obj q (tick_ts env) = Inr payload"
    by (cases "buildPayload rt obj q (tick_ts env)") (auto simp: buildSendStr_def)
  show ?thesis
  proof (cases "HMACKey obj = []")
    case True
    with bs p have "s = payload" by (simp add: buildSendStr_def)
    with q p b True show ?thesis by simp
  next
    case False
    with bs p have "jsonencode rt (envelope rt obj payload (tick_ts env)) = Inr s"
      by (simp add: buildSendStr_def)
    then have "jsonencode rt
                     (Struct [(''payload'', Chars payload),
                        (''hmac'', Chars
                           (if list_ex (\<lambda>x. 16 \<le> unat x)
                                 (HmacSHA256 rt (map of_char (HMACKey obj)) (map of_char payload))
                            then spec_lowercase_hex
                                   (HmacSHA256 rt (map of_char (HMACKey obj)) (map of_char payload))
                            else map (\<lambda>x. ''0123456789abcdef'' ! unat x)
                                   (HmacSHA256 rt (map of_char (HMACKey obj))
                                      (map of_char payload)))),
                        (''meter_id'', Chars (MeterId obj)),
                        (''timestamp_ns'', Int64 (tick_ts env))]) = Inr s"
      unfolding envelope_def hmacSha256Hex_exact [of rt payload "HMACKey obj"] .
    with q p b False show ?thesis by auto
  qed
qed

lemma example_payload:
  "buildLineProtocolInflux example_runtime q ts = ''p\<newline>p\<newline>p\<newline>''"
  by (simp add: buildLineProtocolInflux_def example_runtime_def)

lemma example_hmac:
  "hmacSha256Hex example_runtime (''p\<newline>p\<newline>p\<newline>'') ''k''
     = ''6b700a700a700a''"
  by code_simp

theorem transmitted_bytes_witness:
  "written (stepImpl example_runtime (at_time 0) (sent_at 0 keyed_block) [[230], [5]])
     = Some (map of_char
         (''payload=p\<newline>p\<newline>p\<newline>;hmac=6b700a700a700a;meter_id=METER_001;timestamp_ns=0;'')) \<and>
   written (stepImpl example_runtime (at_time 0) (sent_at 0 connected_block) [[230], [5]])
     = Some (map of_char (''p\<newline>p\<newline>p\<newline>''))"
proof -
  obtain q where q: "inputStage keyed_block [[230], [5]] = Inr q"
    using one_sample_input [of keyed_block] by auto
  obtain q' where q': "inputStage connected_block [[230], [5]] = Inr q'"
    using one_sample_input [of connected_block] by auto
  have bs: "buildSendStr example_runtime keyed_block q 0 =
      Inr (''payload=p\<newline>p\<newline>p\<newline>;hmac=6b700a700a700a;meter_id=METER_001;timestamp_ns=0;'')"
    by (simp add: buildSendStr_def buildPayload_def example_payload envelope_def example_hmac)
       (simp add: example_runtime_def render_def render_leaf_def)
  have w: "written (stepImpl example_runtime (at_time 0) (sent_at 0 keyed_block) [[230], [5]])
     = Some (map of_char
         (''payload=p\<newline>p\<newline>p\<newline>;hmac=6b700a700a700a;meter_id=METER_001;timestamp_ns=0;''))"
    by (subst stepImpl_sent [OF elapsed_of_sent_at, where q = q and s =
         "''payload=p\<newline>p\<newline>p\<newline>;hmac=6b700a700a700a;meter_id=METER_001;timestamp_ns=0;''"])
       (use q bs in \<open>simp_all add: sendDue_def\<close>)
  have w': "written (stepImpl example_runtime (at_time 0) (sent_at 0 connected_block) [[230], [5]])
     = Some (map of_char (''p\<newline>p\<newline>p\<newline>''))"
    by (subst stepImpl_sent [OF elapsed_of_sent_at, where q = q' and s =
         "''p\<newline>p\<newline>p\<newline>''"])
       (use q' in \<open>simp_all add: sendDue_def buildSendStr_plain_influx example_payload\<close>)
  from transmitted_bytes [OF w] transmitted_bytes [OF w'] w w' show ?thesis by simp
qed

text \<open>
  C9. resetImpl sets LastSendTime to the epoch and SampleCount to zero and changes no other
  property: the client object and the connection flag are the ones the object had, so a
  reset does not reconnect.
\<close>

theorem resetImpl_frame:
  "LastSendTime (resetImpl obj) = epoch \<and> SampleCount (resetImpl obj) = 0 \<and>
   TcpClient (resetImpl obj) = TcpClient obj \<and>
   IsConnected (resetImpl obj) = IsConnected obj \<and>
   resetImpl obj = obj\<lparr>LastSendTime := epoch, SampleCount := 0\<rparr>"
  by (simp add: resetImpl_def)

theorem resetImpl_frame_witness:
  "LastSendTime (resetImpl connected_block) = epoch \<and>
   SampleCount (resetImpl connected_block) = 0 \<and>
   TcpClient (resetImpl connected_block) = Some 1 \<and>
   IsConnected (resetImpl connected_block) = True"
  using resetImpl_frame [of connected_block]
  by (simp add: connected_block_def setupImpl_def new_block_def)

text \<open>
  C10. Every call of stepImpl adds exactly one to SampleCount, whatever its outcome (also
  when the call raises at line 77), and the send condition of the same call already
  sees the new value: a call on an object whose counter is 0 hands its message to the
  transport whatever the elapsed time. After one or more calls the counter is positive,
  so a later call inside the send interval writes nothing and returns 0: a first tick
  that failed is not retried under the first-call rule.
\<close>

theorem SampleCount_counts_every_call:
  "SampleCount (block (stepImpl rt env obj varargin)) = SampleCount obj + 1 \<and>
   SampleCount (afterTicks rt obj ticks) = SampleCount obj + length ticks \<and>
   (SampleCount obj = 0 \<and> elapsed_of env obj = Inr e \<and> IsConnected obj \<and>
    inputStage obj varargin = Inr q \<and> buildSendStr rt obj q (tick_ts env) = Inr s \<and>
    (TransportProtocol obj = ''tcp'' \<or> TransportProtocol obj = ''udp'') \<longrightarrow>
      written (stepImpl rt env obj varargin) = Some (map of_char s)) \<and>
   (ticks \<noteq> [] \<and> elapsed_of env (afterTicks rt obj ticks) = Inr e \<and>
    e < SendInterval (afterTicks rt obj ticks) \<and>
    inputStage (afterTicks rt obj ticks) varargin = Inr q \<longrightarrow>
      written (stepImpl rt env (afterTicks rt obj ticks) varargin) = None \<and>
      returned (stepImpl rt env (afterTicks rt obj ticks) varargin) = Inr (0, tick_ts env))"
proof (intro conjI impI)
  show "SampleCount (block (stepImpl rt env obj varargin)) = SampleCount obj + 1"
    by (rule SampleCount_stepImpl)
  show "SampleCount (afterTicks rt obj ticks) = SampleCount obj + length ticks"
    by (rule SampleCount_afterTicks)
next
  assume a: "SampleCount obj = 0 \<and> elapsed_of env obj = Inr e \<and> IsConnected obj \<and>
    inputStage obj varargin = Inr q \<and> buildSendStr rt obj q (tick_ts env) = Inr s \<and>
    (TransportProtocol obj = ''tcp'' \<or> TransportProtocol obj = ''udp'')"
  then have h: "elapsed_of env obj = Inr e" "inputStage obj varargin = Inr q"
    "sendDue (counted obj) e" "IsConnected obj" "buildSendStr rt obj q (tick_ts env) = Inr s"
    "TransportProtocol obj = ''tcp'' \<or> TransportProtocol obj = ''udp''"
    by (simp_all add: sendDue_def)
  show "written (stepImpl rt env obj varargin) = Some (map of_char s)"
  proof (cases "TcpClient obj = None \<or> write_raises env")
    case True
    from stepImpl_send_failed [OF h True] show ?thesis by simp
  next
    case False
    then have "TcpClient obj \<noteq> None" "\<not> write_raises env" by simp_all
    from stepImpl_sent [OF h this] show ?thesis by simp
  qed
next
  let ?o = "afterTicks rt obj ticks"
  assume a: "ticks \<noteq> [] \<and> elapsed_of env ?o = Inr e \<and> e < SendInterval ?o \<and>
    inputStage ?o varargin = Inr q"
  then have "SampleCount ?o \<noteq> 0" by (simp add: SampleCount_afterTicks)
  with a have h: "elapsed_of env ?o = Inr e" "inputStage ?o varargin = Inr q"
    "\<not> sendDue (counted ?o) e"
    by (simp_all add: sendDue_def)
  from stepImpl_not_due [OF h]
  show "written (stepImpl rt env ?o varargin) = None"
    and "returned (stepImpl rt env ?o varargin) = Inr (0, tick_ts env)"
    by simp_all
qed

theorem SampleCount_counts_every_call_witness:
  "returned (stepImpl example_runtime (at_time 5) five_second_block [[230], [5]])
     = Inl IncompatibleTimeZones \<and>
   SampleCount (block (stepImpl example_runtime (at_time 5) five_second_block [[230], [5]])) = 1 \<and>
   returned (stepImpl example_runtime (failing_at 1) (sent_at 0 five_second_block) [[230], [5]])
     = Inr (- 1, 1000000000) \<and>
   written (stepImpl example_runtime (failing_at 1) (sent_at 0 five_second_block) [[230], [5]])
     \<noteq> None \<and>
   returned (stepImpl example_runtime (at_time 2)
      (afterTicks example_runtime (sent_at 0 five_second_block) [(failing_at 1, [[230], [5]])])
      [[230], [5]]) = Inr (0, 2000000000) \<and>
   written (stepImpl example_runtime (at_time 2)
      (afterTicks example_runtime (sent_at 0 five_second_block) [(failing_at 1, [[230], [5]])])
      [[230], [5]]) = None"
proof -
  obtain q where q: "inputStage five_second_block [[230], [5]] = Inr q"
    using one_sample_input [of five_second_block] by auto
  note f = failed_first_send [OF q, simplified]
  have a: "afterTicks example_runtime (sent_at 0 five_second_block) [(failing_at 1, [[230], [5]])]
             = counted (sent_at 0 five_second_block)"
    by (simp add: f)
  have e: "elapsed_of (at_time 2) (counted (sent_at 0 five_second_block)) = Inr 2"
    by (simp add: elapsed_of_eq)
  have u: "returned (stepImpl example_runtime (at_time 5) five_second_block [[230], [5]])
             = Inl IncompatibleTimeZones"
    by (simp add: stepImpl_unzoned)
  from SampleCount_counts_every_call
         [of example_runtime "at_time 5" five_second_block "[[230], [5]]"]
       SampleCount_counts_every_call
         [of example_runtime "at_time 2" "sent_at 0 five_second_block" "[[230], [5]]"
             "[(failing_at 1, [[230], [5]])]" 2 q]
       u q e
  show ?thesis by (simp add: f a)
qed

end
